theory Spec2Isabelle
  imports Main "HOL-Library.Word"
begin

unbundle bit_operations_syntax

text \<open>
  A model of the MCP upstream API monitor: the source checker with its content hash, the
  client of the analysis service, the three analysis stages (API researcher, MCP
  researcher with its cache, engineer) and the saving of the state, followed by the
  properties of the specification that were checked against it. Everything the program
  gets from outside (the answers of the network and of the service, the clock, the file
  system) is an explicit argument; what it changes is returned.
\<close>

section \<open>JavaScript strings\<close>

text \<open>
  A JavaScript string is a sequence of UTF-16 code units. The regular expressions of the
  monitor (\<^verbatim>\<open>\s\<close>, \<^verbatim>\<open>\d\<close>, literals) and \<^verbatim>\<open>slice\<close> work on code units,
  so strings are modelled as lists of 16-bit words. \<open>js\<close> turns an ASCII literal into such
  a string.
\<close>

type_synonym code_unit = "16 word"
type_synonym jsstring = "code_unit list"
type_synonym byte = "8 word"
type_synonym u32 = "32 word"

definition js :: "string \<Rightarrow> jsstring" where
  "js s = map of_char s"

definition lit :: "char \<Rightarrow> code_unit \<Rightarrow> bool" where
  "lit ch c \<longleftrightarrow> c = of_char ch"

text \<open>
  The class \<^verbatim>\<open>\s\<close> of ECMAScript: WhiteSpace and LineTerminator code points. The
  same set is what \<^verbatim>\<open>String.prototype.trim\<close> strips.
\<close>

definition ws_units :: "code_unit list" where
  "ws_units = [0x9, 0xA, 0xB, 0xC, 0xD, 0x20, 0xA0, 0x1680,
     0x2000, 0x2001, 0x2002, 0x2003, 0x2004, 0x2005, 0x2006, 0x2007, 0x2008, 0x2009, 0x200A,
     0x2028, 0x2029, 0x202F, 0x205F, 0x3000, 0xFEFF]"

definition is_space :: "code_unit \<Rightarrow> bool" where
  "is_space c \<longleftrightarrow> c \<in> set ws_units"

text \<open>The class \<^verbatim>\<open>\d\<close>: the ASCII digits.\<close>

definition digit_units :: "code_unit list" where
  "digit_units = [0x30, 0x31, 0x32, 0x33, 0x34, 0x35, 0x36, 0x37, 0x38, 0x39]"

definition is_digit :: "code_unit \<Rightarrow> bool" where
  "is_digit c \<longleftrightarrow> c \<in> set digit_units"

text \<open>
  \<open>matches ps s\<close>: the string \<open>s\<close> starts with one code unit of each class of \<open>ps\<close>, in
  order. This is how a regular expression without repetition or alternation matches at a
  fixed position.
\<close>

fun matches :: "(code_unit \<Rightarrow> bool) list \<Rightarrow> jsstring \<Rightarrow> bool" where
  "matches [] s = True"
| "matches (p # ps) [] = False"
| "matches (p # ps) (c # cs) = (p c \<and> matches ps cs)"

text \<open>\<^verbatim>\<open>s.trim()\<close>\<close>

definition trim :: "jsstring \<Rightarrow> jsstring" where
  "trim s = rev (dropWhile is_space (rev (dropWhile is_space s)))"

text \<open>
  \<^verbatim>\<open>s.replace(/\s+/g, ' ')\<close>: every maximal run of white space becomes one space.
\<close>

function replace_whitespace :: "jsstring \<Rightarrow> jsstring" where
  "replace_whitespace [] = []"
| "replace_whitespace (c # cs) =
     (if is_space c then 0x20 # replace_whitespace (dropWhile is_space cs)
      else c # replace_whitespace cs)"
  by pat_completeness auto
termination
  by (relation "measure length") (auto simp: length_dropWhile_le less_Suc_eq_le)

text \<open>
  \<^verbatim>\<open>s.replace(/\d{4}-\d{2}-\d{2}T\d{2}:\d{2}:\d{2}/g, '[timestamp]')\<close>: the scan goes
  left to right; a match of the 19 code units is replaced and the scan goes on behind it.
\<close>

definition timestamp_re :: "(code_unit \<Rightarrow> bool) list" where
  "timestamp_re =
     [is_digit, is_digit, is_digit, is_digit, lit CHR ''-'', is_digit, is_digit, lit CHR ''-'',
      is_digit, is_digit, lit CHR ''T'', is_digit, is_digit, lit CHR '':'', is_digit, is_digit,
      lit CHR '':'', is_digit, is_digit]"

function replace_timestamps :: "jsstring \<Rightarrow> jsstring" where
  "replace_timestamps [] = []"
| "replace_timestamps (c # cs) =
     (if matches timestamp_re (c # cs)
      then js ''[timestamp]'' @ replace_timestamps (drop 19 (c # cs))
      else c # replace_timestamps cs)"
  by pat_completeness auto
termination
  by (relation "measure length") auto

text \<open>
  \<^verbatim>\<open>s.replace(/lit/g, rep)\<close> for a literal, non-empty pattern. (For the empty pattern
  the definition returns the string unchanged; the monitor never uses it.)
\<close>

function replace_all :: "jsstring \<Rightarrow> jsstring \<Rightarrow> jsstring \<Rightarrow> jsstring" where
  "replace_all pat rep [] = []"
| "replace_all pat rep (c # cs) =
     (if pat \<noteq> [] \<and> take (length pat) (c # cs) = pat
      then rep @ replace_all pat rep (drop (length pat) (c # cs))
      else c # replace_all pat rep cs)"
  by pat_completeness auto
termination
  by (relation "measure (\<lambda>(pat, rep, s). length s)") auto

section \<open>SHA-256 and UTF-8 (Node's \<^verbatim>\<open>crypto.createHash('sha256')\<close>)\<close>

text \<open>
  \<^verbatim>\<open>createHash('sha256').update(s).digest('hex')\<close> encodes the string as UTF-8 (a lone
  surrogate becomes U+FFFD), hashes the bytes with SHA-256 (FIPS 180-4) and prints the
  digest as 64 lower-case hexadecimal digits.
\<close>

definition encode_code_point :: "nat \<Rightarrow> byte list" where
  "encode_code_point n =
     (if n < 0x80 then [of_nat n]
      else if n < 0x800 then [of_nat (0xC0 + n div 64), of_nat (0x80 + n mod 64)]
      else if n < 0x10000 then
        [of_nat (0xE0 + n div 4096), of_nat (0x80 + n div 64 mod 64), of_nat (0x80 + n mod 64)]
      else
        [of_nat (0xF0 + n div 262144), of_nat (0x80 + n div 4096 mod 64),
         of_nat (0x80 + n div 64 mod 64), of_nat (0x80 + n mod 64)])"

definition is_high_surrogate :: "code_unit \<Rightarrow> bool" where
  "is_high_surrogate c \<longleftrightarrow> 0xD800 \<le> c \<and> c \<le> 0xDBFF"

definition is_low_surrogate :: "code_unit \<Rightarrow> bool" where
  "is_low_surrogate c \<longleftrightarrow> 0xDC00 \<le> c \<and> c \<le> 0xDFFF"

definition encode_unit :: "code_unit \<Rightarrow> byte list" where
  "encode_unit c =
     (if is_high_surrogate c \<or> is_low_surrogate c then encode_code_point 0xFFFD
      else encode_code_point (unat c))"

fun utf8 :: "jsstring \<Rightarrow> byte list" where
  "utf8 [] = []"
| "utf8 [c] = encode_unit c"
| "utf8 (hi # lo # cs) =
     (if is_high_surrogate hi \<and> is_low_surrogate lo
      then encode_code_point (0x10000 + (unat hi - 0xD800) * 1024 + (unat lo - 0xDC00)) @ utf8 cs
      else encode_unit hi @ utf8 (lo # cs))"

definition rotr :: "nat \<Rightarrow> u32 \<Rightarrow> u32" where
  "rotr n x = (drop_bit n x) OR (push_bit (32 - n) x)"

definition ssig0 :: "u32 \<Rightarrow> u32" where
  "ssig0 x = rotr 7 x XOR rotr 18 x XOR drop_bit 3 x"

definition ssig1 :: "u32 \<Rightarrow> u32" where
  "ssig1 x = rotr 17 x XOR rotr 19 x XOR drop_bit 10 x"

definition bsig0 :: "u32 \<Rightarrow> u32" where
  "bsig0 x = rotr 2 x XOR rotr 13 x XOR rotr 22 x"

definition bsig1 :: "u32 \<Rightarrow> u32" where
  "bsig1 x = rotr 6 x XOR rotr 11 x XOR rotr 25 x"

definition ch :: "u32 \<Rightarrow> u32 \<Rightarrow> u32 \<Rightarrow> u32" where
  "ch x y z = (x AND y) XOR (NOT x AND z)"

definition maj :: "u32 \<Rightarrow> u32 \<Rightarrow> u32 \<Rightarrow> u32" where
  "maj x y z = (x AND y) XOR (x AND z) XOR (y AND z)"

definition K256 :: "u32 list" where
  "K256 =
     [0x428a2f98, 0x71374491, 0xb5c0fbcf, 0xe9b5dba5, 0x3956c25b, 0x59f111f1, 0x923f82a4, 0xab1c5ed5]
     @ [0xd807aa98, 0x12835b01, 0x243185be, 0x550c7dc3, 0x72be5d74, 0x80deb1fe, 0x9bdc06a7, 0xc19bf174]
     @ [0xe49b69c1, 0xefbe4786, 0x0fc19dc6, 0x240ca1cc, 0x2de92c6f, 0x4a7484aa, 0x5cb0a9dc, 0x76f988da]
     @ [0x983e5152, 0xa831c66d, 0xb00327c8, 0xbf597fc7, 0xc6e00bf3, 0xd5a79147, 0x06ca6351, 0x14292967]
     @ [0x27b70a85, 0x2e1b2138, 0x4d2c6dfc, 0x53380d13, 0x650a7354, 0x766a0abb, 0x81c2c92e, 0x92722c85]
     @ [0xa2bfe8a1, 0xa81a664b, 0xc24b8b70, 0xc76c51a3, 0xd192e819, 0xd6990624, 0xf40e3585, 0x106aa070]
     @ [0x19a4c116, 0x1e376c08, 0x2748774c, 0x34b0bcb5, 0x391c0cb3, 0x4ed8aa4a, 0x5b9cca4f, 0x682e6ff3]
     @ [0x748f82ee, 0x78a5636f, 0x84c87814, 0x8cc70208, 0x90befffa, 0xa4506ceb, 0xbef9a3f7, 0xc67178f2]"

definition H256 :: "u32 list" where
  "H256 = [0x6a09e667, 0xbb67ae85, 0x3c6ef372, 0xa54ff53a,
           0x510e527f, 0x9b05688c, 0x1f83d9ab, 0x5be0cd19]"

fun be_bytes :: "nat \<Rightarrow> nat \<Rightarrow> byte list" where
  "be_bytes 0 n = []"
| "be_bytes (Suc k) n = be_bytes k (n div 256) @ [of_nat (n mod 256)]"

definition pad :: "byte list \<Rightarrow> byte list" where
  "pad m = m @ [0x80] @ replicate ((119 - length m mod 64) mod 64) 0 @ be_bytes 8 (8 * length m)"

fun words_of :: "byte list \<Rightarrow> u32 list" where
  "words_of (a # b # c # d # rest) =
     (push_bit 24 (ucast a) OR push_bit 16 (ucast b) OR push_bit 8 (ucast c) OR ucast d)
       # words_of rest"
| "words_of _ = []"

text \<open>
  The message schedule, computed over a window of the last 16 words: \<open>schedule n w\<close>
  gives the next \<open>n\<close> words, the first being the head of the window.
\<close>

fun schedule :: "nat \<Rightarrow> u32 list \<Rightarrow> u32 list" where
  "schedule 0 w = []"
| "schedule (Suc n) w =
     (case w of
        w0 # rest \<Rightarrow> w0 # schedule n (rest @ [ssig1 (w ! 14) + w ! 9 + ssig0 (w ! 1) + w0])
      | [] \<Rightarrow> [])"

fun rounds :: "u32 list \<Rightarrow> u32 list \<Rightarrow> u32 list \<Rightarrow> u32 list" where
  "rounds (k # ks) (w # ws) [a, b, c, d, e, f, g, h] =
     (let t1 = h + bsig1 e + ch e f g + k + w;
          t2 = bsig0 a + maj a b c
      in rounds ks ws [t1 + t2, a, b, c, d + t1, e, f, g])"
| "rounds _ _ s = s"

definition compress :: "u32 list \<Rightarrow> u32 list \<Rightarrow> u32 list" where
  "compress h blk = map2 (+) h (rounds K256 (schedule 64 blk) h)"

fun blocks :: "u32 list \<Rightarrow> u32 list \<Rightarrow> u32 list" where
  "blocks h ws = (if length ws < 16 then h else blocks (compress h (take 16 ws)) (drop 16 ws))"

declare blocks.simps [simp del]

definition sha256 :: "byte list \<Rightarrow> u32 list" where
  "sha256 m = blocks H256 (words_of (pad m))"

definition hex_digit :: "nat \<Rightarrow> char" where
  "hex_digit n = ''0123456789abcdef'' ! n"

definition hex32 :: "u32 \<Rightarrow> string" where
  "hex32 w = map (\<lambda>i. hex_digit (unat (drop_bit (4 * i) w AND 0xF))) [7, 6, 5, 4, 3, 2, 1, 0]"

definition sha256_hex :: "byte list \<Rightarrow> jsstring" where
  "sha256_hex m = js (concat (map hex32 (sha256 m)))"

section \<open>The source checker (\<^verbatim>\<open>source-checker.ts\<close>)\<close>

subsection \<open>\<^verbatim>\<open>hashContent\<close>\<close>

definition hashContent :: "jsstring \<Rightarrow> jsstring" where
  "hashContent content =
     (let normalized = trim (replace_timestamps (replace_whitespace content))
      in take 16 (sha256_hex (utf8 normalized)))"

subsection \<open>\<^verbatim>\<open>extractTextContent\<close>\<close>

text \<open>
  The flag \<^verbatim>\<open>i\<close> lets an ASCII letter of the pattern match its two cases (without the
  flag \<^verbatim>\<open>u\<close>, no code unit above 127 folds to an ASCII letter).
\<close>

definition to_upper :: "code_unit \<Rightarrow> code_unit" where
  "to_upper c = (if 0x61 \<le> c \<and> c \<le> 0x7A then c - 0x20 else c)"

definition starts_with_ci :: "jsstring \<Rightarrow> jsstring \<Rightarrow> bool" where
  "starts_with_ci p s \<longleftrightarrow>
     length p \<le> length s \<and> map to_upper (take (length p) s) = map to_upper p"

text \<open>
  \<^verbatim>\<open><tag[^>]*>\<close> at the start of \<open>s\<close>: the opening text, then everything up to the
  first \<^verbatim>\<open>>\<close>; the result is the text behind the match.
\<close>

definition after_open_tag :: "string \<Rightarrow> jsstring \<Rightarrow> jsstring option" where
  "after_open_tag tag s =
     (if starts_with_ci (js (CHR ''<'' # tag)) s
      then (case dropWhile (\<lambda>c. c \<noteq> of_char CHR ''>'') (drop (Suc (length tag)) s) of
              [] \<Rightarrow> None
            | gt # rest \<Rightarrow> Some rest)
      else None)"

text \<open>
  \<^verbatim>\<open>[\s\S]*?lit\<close> at the start of \<open>s\<close>: the lazy star stops at the first occurrence of
  the literal; the result is the text behind it.
\<close>

fun after_first_ci :: "jsstring \<Rightarrow> jsstring \<Rightarrow> jsstring option" where
  "after_first_ci p [] = (if p = [] then Some [] else None)"
| "after_first_ci p (c # cs) =
     (if starts_with_ci p (c # cs) then Some (drop (length p) (c # cs))
      else after_first_ci p cs)"

definition match_element :: "string \<Rightarrow> jsstring \<Rightarrow> jsstring option" where
  "match_element tag s =
     (case after_open_tag tag s of
        None \<Rightarrow> None
      | Some body \<Rightarrow> after_first_ci (js (''</'' @ tag @ ''>'')) body)"

lemma after_first_ci_length: "after_first_ci p s = Some r \<Longrightarrow> length r \<le> length s"
  by (induction s) (auto split: if_splits)

lemma after_open_tag_length: "after_open_tag tag s = Some r \<Longrightarrow> length r < length s"
proof -
  assume a: "after_open_tag tag s = Some r"
  then obtain gt where d: "dropWhile (\<lambda>c. c \<noteq> of_char CHR ''>'') (drop (Suc (length tag)) s) = gt # r"
    by (auto simp: after_open_tag_def split: if_splits list.splits)
  have "length (gt # r) \<le> length (drop (Suc (length tag)) s)"
    unfolding d [symmetric] by (rule length_dropWhile_le)
  then show ?thesis by simp
qed

lemma match_element_length: "match_element tag s = Some r \<Longrightarrow> length r < length s"
  by (auto simp: match_element_def split: option.splits
           dest!: after_first_ci_length after_open_tag_length)

text \<open>
  \<^verbatim>\<open>s.replace(/<tag[^>]*>[\s\S]*?<\/tag>/gi, '')\<close>
\<close>

function remove_elements :: "string \<Rightarrow> jsstring \<Rightarrow> jsstring" where
  "remove_elements tag [] = []"
| "remove_elements tag (c # cs) =
     (case match_element tag (c # cs) of
        Some rest \<Rightarrow> remove_elements tag rest
      | None \<Rightarrow> c # remove_elements tag cs)"
  by pat_completeness auto
termination
  by (relation "measure (\<lambda>(tag, s). length s)") (auto dest: match_element_length)

text \<open>
  \<^verbatim>\<open>s.replace(/<[^>]+>/g, ' ')\<close>: a \<^verbatim>\<open><\<close>, at least one code unit other than
  \<^verbatim>\<open>>\<close>, and the first \<^verbatim>\<open>>\<close> behind them.
\<close>

lemma length_dropWhile_pred: "length (dropWhile P xs) - Suc 0 \<le> length xs"
  using length_dropWhile_le [of P xs] by simp

function remove_tags :: "jsstring \<Rightarrow> jsstring" where
  "remove_tags [] = []"
| "remove_tags (c # cs) =
     (if c = of_char CHR ''<'' \<and> takeWhile (\<lambda>x. x \<noteq> of_char CHR ''>'') cs \<noteq> []
         \<and> dropWhile (\<lambda>x. x \<noteq> of_char CHR ''>'') cs \<noteq> []
      then 0x20 # remove_tags (tl (dropWhile (\<lambda>x. x \<noteq> of_char CHR ''>'') cs))
      else c # remove_tags cs)"
  by pat_completeness auto
termination
  by (relation "measure length")
     (auto simp: less_Suc_eq_le length_dropWhile_pred)

definition extractTextContent :: "jsstring \<Rightarrow> jsstring" where
  "extractTextContent html =
     (let text = remove_elements ''script'' html;
          text = remove_elements ''style'' text;
          text = remove_tags text;
          text = replace_all (js ''&nbsp;'') (js '' '') text;
          text = replace_all (js ''&amp;'') (js ''&'') text;
          text = replace_all (js ''&lt;'') (js ''<'') text;
          text = replace_all (js ''&gt;'') (js ''>'') text;
          text = replace_all (js ''&quot;'') [0x22] text
      in trim (replace_whitespace text))"

subsection \<open>Data\<close>

text \<open>
  An ISO-8601 text written by \<^verbatim>\<open>toISOString()\<close> is modelled by the instant it denotes,
  in milliseconds since the epoch; \<open>NotADate\<close> is any text that \<^verbatim>\<open>new Date(s)\<close> cannot
  read, for which \<^verbatim>\<open>getTime()\<close> is NaN.
\<close>

datatype date_string = IsoString int | NotADate

fun getTime :: "date_string \<Rightarrow> int option" where
  "getTime (IsoString t) = Some t"
| "getTime NotADate = None"

record web_page_entry =
  url :: jsstring
  description :: jsstring

text \<open>
  The entry of one URL in \<^verbatim>\<open>SourceCheckState\<close>. The state of a source is a plain object
  that maps URLs to entries; the model holds its own properties, a partial map.
\<close>

record resource_state =
  hash :: jsstring
  lastChecked :: date_string
  status :: nat

type_synonym source_check_state = "jsstring \<rightharpoonup> resource_state"

datatype change_type = New | Modified | Unavailable

text \<open>
  \<^verbatim>\<open>SourceChange\<close>; its fields \<^verbatim>\<open>url\<close> and \<^verbatim>\<open>description\<close> are \<open>change_url\<close> and
  \<open>change_description\<close> here, an optional field is an \<open>option\<close>.
\<close>

record source_change =
  apiKey :: jsstring
  apiName :: jsstring
  change_url :: jsstring
  change_description :: jsstring
  changeType :: change_type
  content :: "jsstring option"
  previousHash :: "jsstring option"
  currentHash :: "jsstring option"
  previousStatus :: "nat option"
  currentStatus :: "nat option"

text \<open>
  What the \<^verbatim>\<open>try\<close> block of \<^verbatim>\<open>checkSingleSource\<close> gets from the network: either
  \<^verbatim>\<open>fetch\<close> or \<^verbatim>\<open>response.text()\<close> throws (time-out, DNS, transport error), or there is
  a response with its status and body.
\<close>

datatype fetch_outcome = Failed | Responded nat jsstring

text \<open>
  \<^verbatim>\<open>fetch(url)\<close> of Node. The URL is parsed without a base, so a string that is not an
  absolute URL is rejected with a \<^verbatim>\<open>TypeError\<close> before any request is made; an absolute
  URL starts with a scheme, which ends at a colon. For the other strings \<open>network\<close> says
  what the request gives.
\<close>

definition fetch :: "(jsstring \<Rightarrow> fetch_outcome) \<Rightarrow> jsstring \<Rightarrow> fetch_outcome" where
  "fetch network input = (if of_char CHR '':'' \<in> set input then network input else Failed)"

subsection \<open>Property lookup in a plain object\<close>

text \<open>
  \<^verbatim>\<open>object[key]\<close> on an object made by an object literal, by \<^verbatim>\<open>JSON.parse\<close> or by a
  spread: the own property of that name if there is one, otherwise what the prototype,
  \<^verbatim>\<open>Object.prototype\<close>, has under that name. Its members are these twelve; eleven are
  functions and \<^verbatim>\<open>__proto__\<close> reads as \<^verbatim>\<open>Object.prototype\<close> itself. Each is a truthy
  value on which a property such as \<^verbatim>\<open>hash\<close>, \<^verbatim>\<open>status\<close>, \<^verbatim>\<open>timestamp\<close> or \<^verbatim>\<open>data\<close> is
  \<^verbatim>\<open>undefined\<close>.

  An assignment \<^verbatim>\<open>object[key] = value\<close> adds or replaces the own property, which is an
  update of the map. For the key \<^verbatim>\<open>__proto__\<close> it replaces the prototype instead: a
  lookup of \<^verbatim>\<open>__proto__\<close> finds the assigned value afterwards, as in the updated map,
  but the value is not an own property and its three properties are inherited. The
  model describes the objects whose prototype is \<^verbatim>\<open>Object.prototype\<close>, such as every
  state that was read from the state file.
\<close>

definition object_prototype_members :: "jsstring list" where
  "object_prototype_members =
     map js [''constructor'', ''__defineGetter__'', ''__defineSetter__'', ''hasOwnProperty'',
             ''__lookupGetter__'', ''__lookupSetter__'', ''isPrototypeOf'',
             ''propertyIsEnumerable'', ''toString'', ''valueOf'', ''__proto__'',
             ''toLocaleString'']"

datatype 'a lookup = Absent | Own 'a | Inherited

definition lookup :: "(jsstring \<rightharpoonup> 'a) \<Rightarrow> jsstring \<Rightarrow> 'a lookup" where
  "lookup object key =
     (case object key of
        Some entry \<Rightarrow> Own entry
      | None \<Rightarrow> if key \<in> set object_prototype_members then Inherited else Absent)"

subsection \<open>\<^verbatim>\<open>checkSingleSource\<close>\<close>

text \<open>
  The function mutates \<^verbatim>\<open>sourceState\<close> and returns a change or \<^verbatim>\<open>null\<close>; the model
  returns both. \<open>network\<close> is what the network answers and \<open>now\<close> the reading of the clock.
  \<^verbatim>\<open>previousCheck\<close> is falsy only when the lookup finds nothing; on an inherited member
  \<^verbatim>\<open>previousCheck.hash\<close> and \<^verbatim>\<open>previousCheck.status\<close> are \<^verbatim>\<open>undefined\<close>, which differs
  from every hash and from 0.
\<close>

definition checkSingleSource ::
  "(jsstring \<Rightarrow> fetch_outcome) \<Rightarrow> jsstring \<Rightarrow> jsstring \<Rightarrow> web_page_entry
     \<Rightarrow> source_check_state \<Rightarrow> int \<Rightarrow> source_change option \<times> source_check_state" where
  "checkSingleSource network apiKey' apiName' pageEntry sourceState now =
     (let previousCheck = lookup sourceState (url pageEntry) in
      case fetch network (url pageEntry) of
        Responded responseStatus body \<Rightarrow>
          (let hash' = hashContent body;
               textContent = extractTextContent body;
               sourceState' = sourceState(url pageEntry \<mapsto>
                 \<lparr>hash = hash', lastChecked = IsoString now, status = responseStatus\<rparr>)
           in case previousCheck of
                Absent \<Rightarrow>
                  (Some \<lparr>apiKey = apiKey', apiName = apiName', change_url = url pageEntry,
                          change_description = description pageEntry, changeType = New,
                          content = Some textContent, previousHash = None,
                          currentHash = Some hash', previousStatus = None,
                          currentStatus = Some responseStatus\<rparr>,
                   sourceState')
              | Own prev \<Rightarrow>
                  if hash prev \<noteq> hash'
                  then (Some \<lparr>apiKey = apiKey', apiName = apiName', change_url = url pageEntry,
                          change_description = description pageEntry, changeType = Modified,
                          content = Some textContent, previousHash = Some (hash prev),
                          currentHash = Some hash', previousStatus = Some (status prev),
                          currentStatus = Some responseStatus\<rparr>,
                        sourceState')
                  else (None, sourceState')
              | Inherited \<Rightarrow>
                  (Some \<lparr>apiKey = apiKey', apiName = apiName', change_url = url pageEntry,
                          change_description = description pageEntry, changeType = Modified,
                          content = Some textContent, previousHash = None,
                          currentHash = Some hash', previousStatus = None,
                          currentStatus = Some responseStatus\<rparr>,
                   sourceState'))
      | Failed \<Rightarrow>
          (let sourceState' = sourceState(url pageEntry \<mapsto>
                 \<lparr>hash = [], lastChecked = IsoString now, status = 0\<rparr>)
           in case previousCheck of
                Absent \<Rightarrow> (None, sourceState')
              | Own prev \<Rightarrow>
                  if status prev \<noteq> 0
                  then (Some \<lparr>apiKey = apiKey', apiName = apiName', change_url = url pageEntry,
                          change_description = description pageEntry, changeType = Unavailable,
                          content = None, previousHash = None, currentHash = None,
                          previousStatus = Some (status prev), currentStatus = Some 0\<rparr>,
                        sourceState')
                  else (None, sourceState')
              | Inherited \<Rightarrow>
                  (Some \<lparr>apiKey = apiKey', apiName = apiName', change_url = url pageEntry,
                          change_description = description pageEntry, changeType = Unavailable,
                          content = None, previousHash = None, currentHash = None,
                          previousStatus = None, currentStatus = Some 0\<rparr>,
                   sourceState')))"
section \<open>Library functions on strings and arrays\<close>

text \<open>
  \<^verbatim>\<open>Array.prototype.join\<close>, \<^verbatim>\<open>String.prototype.includes\<close>, \<^verbatim>\<open>endsWith\<close>,
  \<^verbatim>\<open>split\<close> at a one-unit separator, and \<^verbatim>\<open>a || b\<close> on strings (the empty string is
  falsy).
\<close>

fun join :: "jsstring \<Rightarrow> jsstring list \<Rightarrow> jsstring" where
  "join sep [] = []"
| "join sep [x] = x"
| "join sep (x # y # ys) = x @ sep @ join sep (y # ys)"

fun includes_str :: "jsstring \<Rightarrow> jsstring \<Rightarrow> bool" where
  "includes_str s [] = (s = [])"
| "includes_str s (c # cs) = (take (length s) (c # cs) = s \<or> includes_str s cs)"

definition endsWith :: "jsstring \<Rightarrow> jsstring \<Rightarrow> bool" where
  "endsWith s suffix \<longleftrightarrow>
     length suffix \<le> length s \<and> drop (length s - length suffix) s = suffix"

fun split_str :: "code_unit \<Rightarrow> jsstring \<Rightarrow> jsstring list" where
  "split_str sep [] = [[]]"
| "split_str sep (c # cs) =
     (if c = sep then [] # split_str sep cs
      else (case split_str sep cs of [] \<Rightarrow> [[c]] | l # ls \<Rightarrow> (c # l) # ls))"

definition or_else :: "jsstring \<Rightarrow> jsstring \<Rightarrow> jsstring" where
  "or_else a b = (if a \<noteq> [] then a else b)"

text \<open>A number in a template literal: its decimal digits.\<close>

function show_nat :: "nat \<Rightarrow> string" where
  "show_nat n =
     (if n < 10 then [''0123456789'' ! n]
      else show_nat (n div 10) @ [''0123456789'' ! (n mod 10)])"
  by pat_completeness auto
termination
  by (relation "measure id") auto

declare show_nat.simps [simp del]

section \<open>JavaScript values\<close>

text \<open>
  A thrown value is an \<^verbatim>\<open>Error\<close> with its message, or something else. A \<^verbatim>\<open>TypeError\<close>
  is an \<^verbatim>\<open>Error\<close>; the messages are those of V8, the engine of Node. \<open>and_then\<close> runs a
  computation after one that did not throw, and \<open>traverse\<close> is \<^verbatim>\<open>Array.prototype.map\<close>
  with a callback that can throw: the elements in order, up to the first exception.
\<close>

datatype thrown = Error jsstring | NonError

definition TypeError :: "jsstring \<Rightarrow> thrown" where
  "TypeError message = Error message"

definition and_then :: "thrown + 'a \<Rightarrow> ('a \<Rightarrow> thrown + 'b) \<Rightarrow> thrown + 'b" where
  "and_then r f = (case r of Inl err \<Rightarrow> Inl err | Inr x \<Rightarrow> f x)"

fun traverse :: "('a \<Rightarrow> thrown + 'b) \<Rightarrow> 'a list \<Rightarrow> thrown + 'b list" where
  "traverse f [] = Inr []"
| "traverse f (x # xs) =
     and_then (f x) (\<lambda>y. and_then (traverse f xs) (\<lambda>ys. Inr (y # ys)))"

text \<open>
  The values that \<^verbatim>\<open>JSON.parse\<close> gives and that the agents build from them. The answer
  of the service is cast to the expected type without a check, so the agents compute
  with whatever was parsed. A number is held as the text that \<^verbatim>\<open>String(x)\<close> gives for it
  (\<^verbatim>\<open>0\<close> and \<^verbatim>\<open>-0\<close> are both \<^verbatim>\<open>"0"\<close>; the program does not tell them apart). An object is
  the list of its own properties in the order of their enumeration, each name once; its
  prototype is \<^verbatim>\<open>Object.prototype\<close>. No value is shared between two places: \<^verbatim>\<open>JSON.parse\<close>
  gives a tree.
\<close>

datatype jsval =
    Undefined
  | Null
  | Bool bool
  | Num jsstring
  | Str jsstring
  | Arr "jsval list"
  | Obj "(jsstring \<times> jsval) list"

type_synonym jsobject = "(jsstring \<times> jsval) list"

text \<open>\<^verbatim>\<open>ToBoolean\<close>, the test of \<^verbatim>\<open>!v\<close>, \<^verbatim>\<open>v || w\<close> and \<^verbatim>\<open>v ? a : b\<close>.\<close>

fun truthy :: "jsval \<Rightarrow> bool" where
  "truthy Undefined = False"
| "truthy Null = False"
| "truthy (Bool b) = b"
| "truthy (Num t) = (t \<noteq> js ''0'' \<and> t \<noteq> js ''NaN'')"
| "truthy (Str s) = (s \<noteq> [])"
| "truthy (Arr xs) = True"
| "truthy (Obj members) = True"

text \<open>
  \<^verbatim>\<open>object.key\<close> for a key that no prototype defines, as are all the keys that the agents
  read (\<^verbatim>\<open>changes\<close>, \<^verbatim>\<open>noChangesDetected\<close>, \<^verbatim>\<open>sourceUrl\<close>, \<^verbatim>\<open>title\<close>, \<^verbatim>\<open>type\<close>, \<^verbatim>\<open>relevance\<close>,
  \<^verbatim>\<open>summary\<close>, \<^verbatim>\<open>date\<close>, \<^verbatim>\<open>uses\<close>, \<^verbatim>\<open>purpose\<close>, \<^verbatim>\<open>api\<close>, \<^verbatim>\<open>critical\<close>, \<^verbatim>\<open>endpoints\<close>): the
  own property, or \<^verbatim>\<open>undefined\<close>. \<open>own_property\<close> reads an object, \<open>property\<close> a value that is neither
  \<^verbatim>\<open>undefined\<close> nor \<^verbatim>\<open>null\<close> (a primitive value or an array has no own property of these
  names), and \<open>get\<close> any value: on \<^verbatim>\<open>undefined\<close> and \<^verbatim>\<open>null\<close> it throws.
\<close>

definition own_property :: "jsobject \<Rightarrow> jsstring \<Rightarrow> jsval" where
  "own_property members key = (case map_of members key of Some v \<Rightarrow> v | None \<Rightarrow> Undefined)"

fun property :: "jsval \<Rightarrow> jsstring \<Rightarrow> jsval" where
  "property (Obj members) key = own_property members key"
| "property v key = Undefined"

fun get :: "jsval \<Rightarrow> jsstring \<Rightarrow> thrown + jsval" where
  "get Undefined key =
     Inl (TypeError (js ''Cannot read properties of undefined (reading '' @ [0x27] @ key
            @ [0x27] @ js '')''))"
| "get Null key =
     Inl (TypeError (js ''Cannot read properties of null (reading '' @ [0x27] @ key
            @ [0x27] @ js '')''))"
| "get v key = Inr (property v key)"

text \<open>
  \<^verbatim>\<open>ToString\<close>, the conversion of a value in a template literal, and
  \<^verbatim>\<open>Array.prototype.join\<close>, which converts every element but gives the empty string for
  \<^verbatim>\<open>undefined\<close> and \<^verbatim>\<open>null\<close>. An array converts to its elements joined by commas. An
  object converts through \<^verbatim>\<open>Object.prototype.toString\<close> to \<^verbatim>\<open>[object Object]\<close>; when it
  has an own property \<^verbatim>\<open>toString\<close>, whose value is no function, the conversion falls
  back on \<^verbatim>\<open>valueOf\<close>, which gives no primitive value, and throws.
\<close>

fun to_string :: "jsval \<Rightarrow> thrown + jsstring"
  and join_values :: "jsstring \<Rightarrow> jsval list \<Rightarrow> thrown + jsstring" where
  "to_string Undefined = Inr (js ''undefined'')"
| "to_string Null = Inr (js ''null'')"
| "to_string (Bool b) = Inr (if b then js ''true'' else js ''false'')"
| "to_string (Num t) = Inr t"
| "to_string (Str s) = Inr s"
| "to_string (Arr xs) = join_values (js '','') xs"
| "to_string (Obj members) =
     (if map_of members (js ''toString'') = None then Inr (js ''[object Object]'')
      else Inl (TypeError (js ''Cannot convert object to primitive value'')))"
| "join_values separator [] = Inr []"
| "join_values separator (x # xs) =
     and_then (if x = Undefined \<or> x = Null then Inr [] else to_string x)
       (\<lambda>first. if xs = [] then Inr first
                 else and_then (join_values separator xs)
                        (\<lambda>others. Inr (first @ separator @ others)))"

text \<open>
  \<^verbatim>\<open>a === b\<close> for two values that are held in different places: primitive values are
  compared, and two objects or arrays are never the same object. (\<^verbatim>\<open>JSON.parse\<close> gives no
  \<^verbatim>\<open>NaN\<close>.)
\<close>

fun strict_equals :: "jsval \<Rightarrow> jsval \<Rightarrow> bool" where
  "strict_equals Undefined b = (b = Undefined)"
| "strict_equals Null b = (b = Null)"
| "strict_equals (Bool x) b = (b = Bool x)"
| "strict_equals (Num x) b = (b = Num x)"
| "strict_equals (Str x) b = (b = Str x)"
| "strict_equals (Arr xs) b = False"
| "strict_equals (Obj members) b = False"

text \<open>
  The object spread \<^verbatim>\<open>{...value, key: v}\<close>. The spread copies the own enumerable
  properties: those of an object, the elements of an array and the code units of a
  string under their indices, and nothing of another value. The property that follows
  replaces a copied one of its name in place or is added at the end.
\<close>

fun own_enumerable :: "jsval \<Rightarrow> jsobject" where
  "own_enumerable (Obj members) = members"
| "own_enumerable (Arr xs) = zip (map (\<lambda>i. js (show_nat i)) [0..<length xs]) xs"
| "own_enumerable (Str s) =
     zip (map (\<lambda>i. js (show_nat i)) [0..<length s]) (map (\<lambda>c. Str [c]) s)"
| "own_enumerable v = []"

definition assign :: "jsobject \<Rightarrow> jsstring \<Rightarrow> jsval \<Rightarrow> jsobject" where
  "assign members key v =
     (case map_of members key of
        None \<Rightarrow> members @ [(key, v)]
      | Some old \<Rightarrow> map (\<lambda>(k, x). if k = key then (k, v) else (k, x)) members)"

section \<open>The analysis service (\<^verbatim>\<open>llm-client.ts\<close>)\<close>

text \<open>
  The answer of \<^verbatim>\<open>anthropic.messages.create\<close> is a rejection or a message with content
  blocks and token counts. The data of an \<^verbatim>\<open>LLMResponse<T>\<close> are the parsed value, which
  nothing compares with \<^verbatim>\<open>T\<close>.
\<close>

datatype content_block = TextBlock jsstring | OtherBlock

record api_response =
  response_content :: "content_block list"
  input_tokens :: nat
  output_tokens :: nat

datatype api_outcome = Rejected thrown | Resolved api_response

record llm_usage =
  inputTokens :: nat
  outputTokens :: nat

record llm_response =
  success :: bool
  data :: "jsval option"
  error :: "jsstring option"
  usage :: "llm_usage option"

text \<open>
  The environment of a run. \<open>messages_create\<close> answers a request, given all the requests
  so far (system prompt and user message of each, the current one last); \<open>json_parse\<close> is
  \<^verbatim>\<open>JSON.parse\<close>, which throws (\<open>Inl\<close>) or gives a value; \<open>date_now n\<close> is the \<open>n\<close>-th
  reading of the clock; \<open>readFile\<close> and \<open>readdir\<close> give \<open>None\<close> where Node throws;
  \<open>path_join\<close> is \<^verbatim>\<open>path.join\<close>.
  The state of a run, \<open>world\<close>, is the list of the requests that were sent to the service
  so far and the number of clock readings so far.
\<close>

record env =
  ANTHROPIC_API_KEY :: "jsstring option"
  messages_create :: "(jsstring \<times> jsstring) list \<Rightarrow> api_outcome"
  json_parse :: "jsstring \<Rightarrow> thrown + jsval"
  date_now :: "nat \<Rightarrow> int"
  readFile :: "jsstring \<Rightarrow> jsstring option"
  readdir :: "jsstring \<Rightarrow> jsstring list option"
  path_join :: "jsstring list \<Rightarrow> jsstring"

record world =
  requests :: "(jsstring \<times> jsstring) list"
  clock_reads :: nat

text \<open>\<^verbatim>\<open>Date.now()\<close> and \<^verbatim>\<open>new Date()\<close>: the next reading of the clock.\<close>

definition read_clock :: "env \<Rightarrow> world \<Rightarrow> int \<times> world" where
  "read_clock e w = (date_now e (clock_reads w), w\<lparr>clock_reads := Suc (clock_reads w)\<rparr>)"

text \<open>
  \<^verbatim>\<open>getClient\<close> throws when the key is unset or empty. (The client is created once; the
  model takes the environment variable as fixed during a run.)
\<close>

definition getClient :: "env \<Rightarrow> thrown + unit" where
  "getClient e =
     (case ANTHROPIC_API_KEY e of
        None \<Rightarrow> Inl (Error (js ''ANTHROPIC_API_KEY environment variable is required''))
      | Some key \<Rightarrow>
          if key = [] then Inl (Error (js ''ANTHROPIC_API_KEY environment variable is required''))
          else Inr ())"

text \<open>
  \<^verbatim>\<open>text.match(/\{[\s\S]*\}/)\<close>: from the first \<^verbatim>\<open>{\<close> to the last \<^verbatim>\<open>}\<close> behind it.
\<close>

definition json_match :: "jsstring \<Rightarrow> jsstring option" where
  "json_match text =
     (case dropWhile (\<lambda>c. c \<noteq> of_char CHR ''{'') text of
        [] \<Rightarrow> None
      | brace # behind \<Rightarrow>
          (case rev (dropWhile (\<lambda>c. c \<noteq> of_char CHR ''}'') (rev behind)) of
             [] \<Rightarrow> None
           | inner \<Rightarrow> Some (brace # inner)))"

fun is_text :: "content_block \<Rightarrow> bool" where
  "is_text (TextBlock t) = True"
| "is_text OtherBlock = False"

definition error_message :: "thrown \<Rightarrow> jsstring" where
  "error_message err = (case err of Error message \<Rightarrow> message | NonError \<Rightarrow> js ''Unknown error'')"

definition failure :: "jsstring \<Rightarrow> llm_response" where
  "failure message = \<lparr>success = False, data = None, error = Some message, usage = None\<rparr>"

text \<open>
  \<^verbatim>\<open>callLLM<T>\<close>. \<^verbatim>\<open>getClient\<close> is outside the \<^verbatim>\<open>try\<close> block, so its exception leaves
  \<^verbatim>\<open>callLLM\<close> and no request is sent; every exception after it is caught. The cast of
  the parsed value to \<^verbatim>\<open>T\<close> does nothing.
\<close>

definition callLLM ::
  "env \<Rightarrow> jsstring \<Rightarrow> jsstring \<Rightarrow> world \<Rightarrow> (thrown + llm_response) \<times> world" where
  "callLLM e systemPrompt userMessage w =
     (case getClient e of
        Inl err \<Rightarrow> (Inl err, w)
      | Inr anthropic \<Rightarrow>
          (let w' = w\<lparr>requests := requests w @ [(systemPrompt, userMessage)]\<rparr> in
           (Inr (case messages_create e (requests w') of
                   Rejected err \<Rightarrow> failure (error_message err)
                 | Resolved response \<Rightarrow>
                     (case find is_text (response_content response) of
                        None \<Rightarrow> failure (js ''No text content in response'')
                      | Some OtherBlock \<Rightarrow> failure (js ''No text content in response'')
                      | Some (TextBlock text) \<Rightarrow>
                          (case json_match text of
                             None \<Rightarrow> failure (js ''No JSON found in response'')
                           | Some jsonMatch \<Rightarrow>
                               (case json_parse e jsonMatch of
                                  Inl err \<Rightarrow> failure (error_message err)
                                | Inr d \<Rightarrow>
                                    \<lparr>success = True, data = Some d, error = None,
                                     usage = Some \<lparr>inputTokens = input_tokens response,
                                                    outputTokens = output_tokens response\<rparr>\<rparr>)))),
            w')))"

text \<open>
  The test of the three agents, \<^verbatim>\<open>!response.success || !response.data\<close>: when it is
  false the agent goes on with the data, which are then neither \<^verbatim>\<open>undefined\<close> nor
  \<^verbatim>\<open>null\<close>.
\<close>

definition usable_data :: "llm_response \<Rightarrow> jsval option" where
  "usable_data response =
     (if \<not> success response then None
      else (case data response of
              None \<Rightarrow> None
            | Some d \<Rightarrow> if \<not> truthy d then None else Some d))"
section \<open>Stage 1: the API researcher (\<^verbatim>\<open>agents/api-researcher.ts\<close>)\<close>

text \<open>
  \<^verbatim>\<open>ApiResearcherOutput\<close>. The changes are declared as \<^verbatim>\<open>ApiChange[]\<close>, with the
  properties \<^verbatim>\<open>title\<close>, \<^verbatim>\<open>summary\<close>, \<^verbatim>\<open>type\<close>, \<^verbatim>\<open>relevance\<close>, \<^verbatim>\<open>sourceUrl\<close> and \<^verbatim>\<open>date\<close>,
  and the flag as \<^verbatim>\<open>boolean\<close>; what they hold comes from the answer of the service,
  unchecked: every change is an object, with whatever properties, and the flag is any
  value.
\<close>

record api_researcher_output =
  provider :: jsstring
  changes :: "jsobject list"
  noChangesDetected :: jsval

record page =
  page_url :: jsstring
  page_content :: jsstring


definition API_RESEARCHER_SYSTEM_PROMPT :: jsstring where
  \<open>API_RESEARCHER_SYSTEM_PROMPT = join (js ''\<newline>'') [
     js ''You are an API change researcher. Your job is to analyze web page content from API documentation or news pages and extract any announcements about API changes.'',
     js '''',
     js ''Focus on changes that would affect developers using these APIs:'',
     js ''- Deprecation notices (endpoints being removed, versions being sunset)'',
     js ''- Breaking changes (parameter changes, response format changes, authentication changes)'',
     js ''- New features (new endpoints, new parameters, new data available)'',
     js ''- Maintenance notices (scheduled downtime, migrations)'',
     js '''',
     js ''For each change you find, determine:'',
     js ''- Title: A short descriptive title'',
     js ''- Summary: What developers need to know'',
     js ''- Type: deprecation, breaking, new_feature, maintenance, or unknown'',
     js ''- Relevance: high (action required), medium (should review), low (informational)'',
     js ''- Date: When announced or when it takes effect (if mentioned)'',
     js '''',
     js ''If the page content doesn't contain any API-related changes or announcements, indicate that no changes were detected.'',
     js '''',
     js ''Respond with a JSON object in this exact format:'',
     js ''{'',
     js ''  "provider": "Provider Name",'',
     js ''  "changes": ['',
     js ''    {'',
     js ''      "title": "Change title",'',
     js ''      "summary": "What developers need to know",'',
     js ''      "type": "deprecation|breaking|new_feature|maintenance|unknown",'',
     js ''      "relevance": "high|medium|low",'',
     js ''      "sourceUrl": "URL of the page",'',
     js ''      "date": "2026-02-01 or null if not specified"'',
     js ''    }'',
     js ''  ],'',
     js ''  "noChangesDetected": false'',
     js ''}'',
     js '''',
     js ''If no changes are found, set "noChangesDetected": true and "changes": [].'']\<close>

text \<open>
  \<^verbatim>\<open>analyzeApiChanges\<close>: one call of the service for one page. An unusable answer gives
  the empty result. Otherwise \<^verbatim>\<open>response.data.changes.map\<close> must be the method of an
  array, or the call throws a \<^verbatim>\<open>TypeError\<close>; every element is spread into a new object
  that gets the page's URL where the element has no truthy \<^verbatim>\<open>sourceUrl\<close>.
\<close>

definition api_userMessage :: "jsstring \<Rightarrow> jsstring \<Rightarrow> jsstring \<Rightarrow> jsstring" where
  "api_userMessage provider' pageUrl pageContent =
     js ''Analyze this web page content from '' @ provider' @ js '' ('' @ pageUrl
       @ js '') for any API changes or announcements:\<newline>\<newline>---\<newline>''
       @ take 15000 pageContent
       @ js ''\<newline>---\<newline>\<newline>Extract any API-related changes and return as JSON.''"

definition with_sourceUrl :: "jsstring \<Rightarrow> jsval \<Rightarrow> thrown + jsobject" where
  "with_sourceUrl pageUrl change =
     and_then (get change (js ''sourceUrl''))
       (\<lambda>given. Inr (assign (own_enumerable change) (js ''sourceUrl'')
                        (if truthy given then given else Str pageUrl)))"

definition map_changes :: "jsstring \<Rightarrow> jsval \<Rightarrow> thrown + jsobject list" where
  "map_changes pageUrl changes' =
     (case changes' of
        Arr xs \<Rightarrow> traverse (with_sourceUrl pageUrl) xs
      | Undefined \<Rightarrow>
          Inl (TypeError (js ''Cannot read properties of undefined (reading '' @ [0x27]
                 @ js ''map'' @ [0x27] @ js '')''))
      | Null \<Rightarrow>
          Inl (TypeError (js ''Cannot read properties of null (reading '' @ [0x27]
                 @ js ''map'' @ [0x27] @ js '')''))
      | other \<Rightarrow> Inl (TypeError (js ''response.data.changes.map is not a function'')))"

definition analyzeApiChanges ::
  "env \<Rightarrow> jsstring \<Rightarrow> jsstring \<Rightarrow> jsstring \<Rightarrow> world
     \<Rightarrow> (thrown + api_researcher_output) \<times> world" where
  "analyzeApiChanges e provider' pageUrl pageContent w =
     (case callLLM e API_RESEARCHER_SYSTEM_PROMPT
             (api_userMessage provider' pageUrl pageContent) w of
        (Inl err, w') \<Rightarrow> (Inl err, w')
      | (Inr response, w') \<Rightarrow>
          (case usable_data response of
             None \<Rightarrow>
               (Inr \<lparr>provider = provider', changes = [], noChangesDetected = Bool True\<rparr>, w')
           | Some d \<Rightarrow>
               (and_then (map_changes pageUrl (property d (js ''changes'')))
                  (\<lambda>changes'.
                     Inr \<lparr>provider = provider', changes = changes',
                          noChangesDetected =
                            (if truthy (property d (js ''noChangesDetected''))
                             then property d (js ''noChangesDetected'')
                             else Bool (length changes' = 0))\<rparr>),
                w')))"

text \<open>
  \<^verbatim>\<open>Array.prototype.findIndex\<close> (the first index at which the predicate holds, or -1)
  and \<^verbatim>\<open>Array.prototype.filter\<close> with a callback that also gets the index and the
  array.
\<close>

fun findIndex :: "('a \<Rightarrow> bool) \<Rightarrow> 'a list \<Rightarrow> int" where
  "findIndex P [] = - 1"
| "findIndex P (x # xs) =
     (if P x then 0 else (let i = findIndex P xs in if i = - 1 then - 1 else i + 1))"

definition filter_indexed :: "('a \<Rightarrow> nat \<Rightarrow> 'a list \<Rightarrow> bool) \<Rightarrow> 'a list \<Rightarrow> 'a list" where
  "filter_indexed f self =
     map fst (filter (\<lambda>(x, index). f x index self) (zip self [0..<length self]))"

text \<open>
  The loop of \<^verbatim>\<open>analyzeProviderPages\<close>: the pages in order, the changes of each pushed
  onto \<^verbatim>\<open>allChanges\<close>. An exception of a call ends the loop.
\<close>

fun collect_changes ::
  "env \<Rightarrow> jsstring \<Rightarrow> page list \<Rightarrow> jsobject list \<Rightarrow> world
     \<Rightarrow> (thrown + jsobject list) \<times> world" where
  "collect_changes e provider' [] allChanges w = (Inr allChanges, w)"
| "collect_changes e provider' (p # pages) allChanges w =
     (case analyzeApiChanges e provider' (page_url p) (page_content p) w of
        (Inl err, w') \<Rightarrow> (Inl err, w')
      | (Inr result, w') \<Rightarrow>
          collect_changes e provider' pages (allChanges @ changes result) w')"

text \<open>
  The callback of the filter compares \<^verbatim>\<open>c.title === change.title\<close> for every entry \<^verbatim>\<open>c\<close>
  of the array. The elements of the array are paired with their positions, which stand
  for their identity: at its own position an entry is compared with itself and the
  titles are the same value, whatever it is; at another position the titles are two
  values.
\<close>

definition same_title :: "nat \<times> jsobject \<Rightarrow> nat \<times> jsobject \<Rightarrow> bool" where
  "same_title c change \<longleftrightarrow>
     fst c = fst change
       \<or> strict_equals (own_property (snd c) (js ''title'')) (own_property (snd change) (js ''title''))"

definition analyzeProviderPages ::
  "env \<Rightarrow> jsstring \<Rightarrow> page list \<Rightarrow> world \<Rightarrow> (thrown + api_researcher_output) \<times> world" where
  "analyzeProviderPages e provider' pages w =
     (case collect_changes e provider' pages [] w of
        (Inl err, w') \<Rightarrow> (Inl err, w')
      | (Inr allChanges, w') \<Rightarrow>
          (let uniqueChanges =
                 map snd
                   (filter_indexed
                      (\<lambda>change index self. int index = findIndex (\<lambda>c. same_title c change) self)
                      (enumerate 0 allChanges))
           in (Inr \<lparr>provider = provider', changes = uniqueChanges,
                     noChangesDetected = Bool (length uniqueChanges = 0)\<rparr>, w')))"

text \<open>
  What the specification says the merge is: the entries in order, an entry dropped when
  an earlier entry has the same title. \<open>seen\<close> holds the titles of the earlier entries.
\<close>

fun dedupe_by_title_spec :: "jsval list \<Rightarrow> jsobject list \<Rightarrow> jsobject list" where
  "dedupe_by_title_spec seen [] = []"
| "dedupe_by_title_spec seen (c # cs) =
     (if list_ex (\<lambda>t. strict_equals t (own_property c (js ''title''))) seen
      then dedupe_by_title_spec (seen @ [own_property c (js ''title'')]) cs
      else c # dedupe_by_title_spec (seen @ [own_property c (js ''title'')]) cs)"
section \<open>Stage 2: the MCP researcher (\<^verbatim>\<open>agents/mcp-researcher.ts\<close>)\<close>

text \<open>
  \<^verbatim>\<open>UpstreamApi\<close> and \<^verbatim>\<open>McpInfo\<close> (from \<^verbatim>\<open>discovery.ts\<close>); the field \<^verbatim>\<open>name\<close> of
  an upstream API is \<open>api_name\<close> here.
\<close>

record upstream_api =
  api_name :: jsstring
  baseUrl :: jsstring
  source :: jsstring

record mcp_info =
  name :: jsstring
  path :: jsstring
  useCase :: jsstring
  targetAudience :: jsstring
  tools :: "jsstring list"
  upstreamApis :: "upstream_api list"

text \<open>
  \<^verbatim>\<open>McpResearcherOutput\<close>. \<^verbatim>\<open>uses\<close> is declared as \<^verbatim>\<open>McpDependency[]\<close>, with the
  properties \<^verbatim>\<open>api\<close>, \<^verbatim>\<open>endpoints\<close> and \<^verbatim>\<open>critical\<close>, and \<^verbatim>\<open>purpose\<close> as a string; both
  are taken from the answer of the service, unchecked.
\<close>

record mcp_researcher_output =
  mcp :: jsstring
  uses :: jsval
  purpose :: jsval

text \<open>
  An entry of \<^verbatim>\<open>McpResearcherCache\<close> (its field \<^verbatim>\<open>data\<close> is \<open>entry_data\<close> here); the
  cache maps the names of the MCPs to entries.
\<close>

record cache_entry =
  entry_data :: mcp_researcher_output
  timestamp :: date_string

type_synonym mcp_researcher_cache = "jsstring \<rightharpoonup> cache_entry"

definition CACHE_DURATION_DAYS :: int where
  "CACHE_DURATION_DAYS = 30"


definition MCP_RESEARCHER_SYSTEM_PROMPT :: jsstring where
  \<open>MCP_RESEARCHER_SYSTEM_PROMPT = join (js ''\<newline>'') [
     js ''You are analyzing an MCP (Model Context Protocol) server to understand what upstream APIs it uses.'',
     js '''',
     js ''MCP servers wrap external APIs to make them available to AI assistants. Your job is to identify:'',
     js ''1. What external APIs the MCP depends on'',
     js ''2. What endpoints or features it uses from each API'',
     js ''3. How critical each dependency is (would the MCP break without it?)'',
     js '''',
     js ''Analyze the CLAUDE.md documentation and source code snippets provided.'',
     js '''',
     js ''Respond with a JSON object in this exact format:'',
     js ''{'',
     js ''  "mcp": "mcp-name",'',
     js ''  "uses": ['',
     js ''    {'',
     js ''      "api": "API Name (e.g., SMHI Forecast API)",'',
     js ''      "endpoints": ["/path/to/endpoint", "/another/endpoint"],'',
     js ''      "critical": true'',
     js ''    }'',
     js ''  ],'',
     js ''  "purpose": "Brief description of what this MCP does"'',
     js ''}'',
     js '''',
     js ''Focus on external HTTP APIs, not internal code dependencies.'']\<close>

text \<open>
  The user message of \<^verbatim>\<open>analyzeMcpDependencies\<close>, put together from \<^verbatim>\<open>CLAUDE.md\<close>, from
  the lines of at most three files of \<^verbatim>\<open>src/clients\<close> and of \<^verbatim>\<open>src/tools\<close> that
  mention an API, and from the discovered upstream APIs. \<open>read_snippets\<close> is the loop over
  the files of one directory: a file that cannot be read ends it (the \<^verbatim>\<open>catch\<close> is
  around the loop), the snippets pushed before stay.
\<close>

definition relevant_line :: "jsstring \<Rightarrow> bool" where
  "relevant_line line \<longleftrightarrow>
     includes_str (js ''http'') line \<or> includes_str (js ''fetch'') line
       \<or> includes_str (js ''API'') line \<or> includes_str (js ''endpoint'') line"

fun read_snippets :: "env \<Rightarrow> jsstring \<Rightarrow> jsstring list \<Rightarrow> jsstring list" where
  "read_snippets e searchPath [] = []"
| "read_snippets e searchPath (file # files) =
     (if endsWith file (js ''.ts'')
      then (case readFile e (path_join e [searchPath, file]) of
              None \<Rightarrow> []
            | Some content' \<Rightarrow>
                (let relevantLines =
                       join (js ''\<newline>'') (take 20 (filter relevant_line (split_str 0xA content')))
                 in (if relevantLines \<noteq> []
                     then [js ''// '' @ file @ js ''\<newline>'' @ relevantLines] else [])
                    @ read_snippets e searchPath files))
      else read_snippets e searchPath files)"

definition sourceSnippets :: "env \<Rightarrow> mcp_info \<Rightarrow> jsstring list" where
  "sourceSnippets e mcpInfo =
     concat (map (\<lambda>searchPath.
                    case readdir e searchPath of
                      None \<Rightarrow> []
                    | Some files \<Rightarrow> read_snippets e searchPath (take 3 files))
               [path_join e [path mcpInfo, js ''src'', js ''clients''],
                path_join e [path mcpInfo, js ''src'', js ''tools'']])"

definition mcp_userMessage :: "env \<Rightarrow> mcp_info \<Rightarrow> jsstring" where
  "mcp_userMessage e mcpInfo =
     (let claudeMdContent =
            (case readFile e (path_join e [path mcpInfo, js ''CLAUDE.md'']) of
               Some c \<Rightarrow> c
             | None \<Rightarrow> js ''CLAUDE.md not found'')
      in js ''Analyze this MCP server ('' @ name mcpInfo
           @ js '') to identify its upstream API dependencies:\<newline>\<newline>## CLAUDE.md\<newline>''
           @ take 5000 claudeMdContent
           @ js ''\<newline>\<newline>## Source Code Snippets\<newline>''
           @ take 5000 (join (js ''\<newline>\<newline>'') (sourceSnippets e mcpInfo))
           @ js ''\<newline>\<newline>## Discovered Upstream APIs (from code scanning)\<newline>''
           @ join (js ''\<newline>'')
               (map (\<lambda>a. js ''- '' @ api_name a @ js '': '' @ baseUrl a) (upstreamApis mcpInfo))
           @ js ''\<newline>\<newline>Extract the API dependencies and return as JSON.'')"

text \<open>
  \<^verbatim>\<open>analyzeMcpDependencies\<close>. The cache is an optional argument, a plain object. The
  clock is read only when the lookup in the cache finds something; with a timestamp
  that is not a date, or \<^verbatim>\<open>undefined\<close> as on an inherited member, the age is NaN and the
  comparison false. \<open>research\<close> is the part of the function behind the cache check.
\<close>

definition fallback_profile :: "mcp_info \<Rightarrow> mcp_researcher_output" where
  "fallback_profile mcpInfo =
     \<lparr>mcp = name mcpInfo,
      uses = Arr (map (\<lambda>a. Obj [(js ''api'', Str (api_name a)), (js ''endpoints'', Arr []),
                                (js ''critical'', Bool True)])
                   (upstreamApis mcpInfo)),
      purpose = Str (or_else (useCase mcpInfo) (js ''Unknown''))\<rparr>"

definition research :: "env \<Rightarrow> mcp_info \<Rightarrow> world \<Rightarrow> (thrown + mcp_researcher_output) \<times> world" where
  "research e mcpInfo w =
     (case callLLM e MCP_RESEARCHER_SYSTEM_PROMPT (mcp_userMessage e mcpInfo) w of
        (Inl err, w') \<Rightarrow> (Inl err, w')
      | (Inr response, w') \<Rightarrow>
          (case usable_data response of
             None \<Rightarrow> (Inr (fallback_profile mcpInfo), w')
           | Some d \<Rightarrow>
               (Inr \<lparr>mcp = name mcpInfo, uses = property d (js ''uses''),
                      purpose = property d (js ''purpose'')\<rparr>, w')))"

definition analyzeMcpDependencies ::
  "env \<Rightarrow> mcp_info \<Rightarrow> mcp_researcher_cache option \<Rightarrow> world
     \<Rightarrow> (thrown + mcp_researcher_output) \<times> world" where
  "analyzeMcpDependencies e mcpInfo cache w =
     (case (case cache of None \<Rightarrow> Absent | Some c \<Rightarrow> lookup c (name mcpInfo)) of
        Absent \<Rightarrow> research e mcpInfo w
      | Own cached \<Rightarrow>
          (case read_clock e w of
             (now, w') \<Rightarrow>
               (let maxAge = CACHE_DURATION_DAYS * 24 * 60 * 60 * 1000 in
                case getTime (timestamp cached) of
                  None \<Rightarrow> research e mcpInfo w'
                | Some cachedTime \<Rightarrow>
                    if now - cachedTime < maxAge then (Inr (entry_data cached), w')
                    else research e mcpInfo w'))
      | Inherited \<Rightarrow>
          (case read_clock e w of (now, w') \<Rightarrow> research e mcpInfo w'))"

text \<open>
  \<^verbatim>\<open>analyzeAllMcps\<close>: every MCP is looked up in the cache that was passed in; its result
  is pushed and stored in \<^verbatim>\<open>updatedCache\<close> under a new timestamp.
\<close>

fun analyzeAllMcps_loop ::
  "env \<Rightarrow> mcp_info list \<Rightarrow> mcp_researcher_cache option \<Rightarrow> mcp_researcher_output list
     \<Rightarrow> mcp_researcher_cache \<Rightarrow> world
     \<Rightarrow> (thrown + mcp_researcher_output list \<times> mcp_researcher_cache) \<times> world" where
  "analyzeAllMcps_loop e [] cache results updatedCache w =
     (Inr (results, updatedCache), w)"
| "analyzeAllMcps_loop e (m # mcps) cache results updatedCache w =
     (case analyzeMcpDependencies e m cache w of
        (Inl err, w') \<Rightarrow> (Inl err, w')
      | (Inr result, w') \<Rightarrow>
          (case read_clock e w' of
             (now, w'') \<Rightarrow>
               analyzeAllMcps_loop e mcps cache (results @ [result])
                 (updatedCache(name m \<mapsto> \<lparr>entry_data = result, timestamp = IsoString now\<rparr>))
                 w''))"

definition analyzeAllMcps ::
  "env \<Rightarrow> mcp_info list \<Rightarrow> mcp_researcher_cache option \<Rightarrow> world
     \<Rightarrow> (thrown + mcp_researcher_output list \<times> mcp_researcher_cache) \<times> world" where
  "analyzeAllMcps e mcps cache w =
     analyzeAllMcps_loop e mcps cache [] (case cache of None \<Rightarrow> Map.empty | Some c \<Rightarrow> c) w"
section \<open>Stage 3: the engineer (\<^verbatim>\<open>agents/engineer.ts\<close>)\<close>

text \<open>
  \<^verbatim>\<open>EngineerOutput\<close> is declared with the properties \<^verbatim>\<open>action\<close> (\<^verbatim>\<open>'notify'\<close>, \<^verbatim>\<open>'urgent'\<close>
  or \<^verbatim>\<open>'none'\<close>), \<^verbatim>\<open>summary\<close>, \<^verbatim>\<open>affectedMcps\<close>, \<^verbatim>\<open>recommendedAction\<close> and \<^verbatim>\<open>details\<close>.
  \<^verbatim>\<open>decideAction\<close> returns an object literal of that shape or the parsed answer of the
  service as it is, so a decision is a value.
\<close>

definition engineer_output ::
  "jsstring \<Rightarrow> jsstring \<Rightarrow> jsval list \<Rightarrow> jsstring \<Rightarrow> jsval list \<Rightarrow> jsval" where
  "engineer_output action' summary' affectedMcps' recommendedAction' details' =
     Obj [(js ''action'', Str action'), (js ''summary'', Str summary'),
          (js ''affectedMcps'', Arr affectedMcps'),
          (js ''recommendedAction'', Str recommendedAction'), (js ''details'', Arr details')]"


definition ENGINEER_SYSTEM_PROMPT :: jsstring where
  \<open>ENGINEER_SYSTEM_PROMPT = join (js ''\<newline>'') [
     js ''You are a software engineer reviewing API changes to determine their impact on MCP servers.'',
     js '''',
     js ''Given:'',
     js ''1. API changes detected from provider documentation/news pages'',
     js ''2. MCP server dependencies (what APIs each MCP uses)'',
     js '''',
     js ''Your job is to:'',
     js ''1. Match API changes to affected MCPs'',
     js ''2. Determine if any action is needed'',
     js ''3. Provide a clear summary and recommendation'',
     js '''',
     js ''Action levels:'',
     js ''- "urgent": Breaking changes or deprecations that require immediate attention'',
     js ''- "notify": Changes worth knowing about but not immediately critical'',
     js ''- "none": No actionable changes (either no changes detected, or changes don't affect any MCPs)'',
     js '''',
     js ''Consider:'',
     js ''- Is the change relevant to any MCP's dependencies?'',
     js ''- How critical is the affected API to the MCP?'',
     js ''- What's the timeline for action (if any)?'',
     js '''',
     js ''Respond with a JSON object in this exact format:'',
     js ''{'',
     js ''  "action": "urgent|notify|none",'',
     js ''  "summary": "One-sentence summary of the situation",'',
     js ''  "affectedMcps": ["mcp-name-1", "mcp-name-2"],'',
     js ''  "recommendedAction": "What the developer should do (or 'No action needed')",'',
     js ''  "details": ['',
     js ''    {'',
     js ''      "mcp": "mcp-name",'',
     js ''      "changes": ["Brief description of relevant change"],'',
     js ''      "impact": "high|medium|low"'',
     js ''    }'',
     js ''  ]'',
     js ''}'',
     js '''',
     js ''If no changes affect any MCPs, set action to "none" with an appropriate summary.'']\<close>

text \<open>
  The user message of \<^verbatim>\<open>decideAction\<close>, a template literal. Every \<^verbatim>\<open>${...}\<close> converts
  its value to a string; \<^verbatim>\<open>mcp.uses.map\<close> and \<^verbatim>\<open>u.endpoints.join\<close> must be the methods of
  arrays and \<^verbatim>\<open>u\<close> must not be \<^verbatim>\<open>undefined\<close> or \<^verbatim>\<open>null\<close>, or the evaluation throws a
  \<^verbatim>\<open>TypeError\<close>. The parts are evaluated from left to right.
\<close>

definition show_api_change :: "jsobject \<Rightarrow> thrown + jsstring" where
  "show_api_change c =
     and_then (to_string (own_property c (js ''title''))) (\<lambda>title'.
     and_then (to_string (own_property c (js ''type''))) (\<lambda>type'.
     and_then (to_string (own_property c (js ''relevance''))) (\<lambda>relevance'.
     and_then (to_string (own_property c (js ''summary''))) (\<lambda>summary'.
     and_then (to_string (own_property c (js ''sourceUrl''))) (\<lambda>sourceUrl'.
     and_then (if truthy (own_property c (js ''date''))
               then and_then (to_string (own_property c (js ''date'')))
                      (\<lambda>date'. Inr (js '' | Date: '' @ date'))
               else Inr []) (\<lambda>dated.
     Inr (js ''- **'' @ title' @ js ''** ('' @ type' @ js '', '' @ relevance'
            @ js '' relevance)\<newline>  '' @ summary' @ js ''\<newline>  Source: '' @ sourceUrl'
            @ dated)))))))"

definition show_provider :: "api_researcher_output \<Rightarrow> thrown + jsstring" where
  "show_provider p =
     and_then (if truthy (noChangesDetected p) then Inr (js ''No changes detected'')
               else and_then (traverse show_api_change (changes p))
                      (\<lambda>lines. Inr (join (js ''\<newline>'') lines)))
       (\<lambda>listed. Inr (js ''### '' @ provider p @ js ''\<newline>'' @ listed))"

definition join_endpoints :: "jsval \<Rightarrow> thrown + jsstring" where
  "join_endpoints endpoints' =
     (case endpoints' of
        Arr xs \<Rightarrow> join_values (js '', '') xs
      | Undefined \<Rightarrow>
          Inl (TypeError (js ''Cannot read properties of undefined (reading '' @ [0x27]
                 @ js ''join'' @ [0x27] @ js '')''))
      | Null \<Rightarrow>
          Inl (TypeError (js ''Cannot read properties of null (reading '' @ [0x27]
                 @ js ''join'' @ [0x27] @ js '')''))
      | other \<Rightarrow> Inl (TypeError (js ''u.endpoints.join is not a function'')))"

definition show_dependency :: "jsval \<Rightarrow> thrown + jsstring" where
  "show_dependency u =
     and_then (get u (js ''api'')) (\<lambda>api'.
     and_then (to_string api') (\<lambda>named.
     and_then (join_endpoints (property u (js ''endpoints''))) (\<lambda>joined.
     Inr (js ''- '' @ named
            @ (if truthy (property u (js ''critical'')) then js '' (critical)'' else [])
            @ js '': '' @ or_else joined (js ''general usage'')))))"

definition map_uses :: "jsval \<Rightarrow> thrown + jsstring list" where
  "map_uses uses' =
     (case uses' of
        Arr xs \<Rightarrow> traverse show_dependency xs
      | Undefined \<Rightarrow>
          Inl (TypeError (js ''Cannot read properties of undefined (reading '' @ [0x27]
                 @ js ''map'' @ [0x27] @ js '')''))
      | Null \<Rightarrow>
          Inl (TypeError (js ''Cannot read properties of null (reading '' @ [0x27]
                 @ js ''map'' @ [0x27] @ js '')''))
      | other \<Rightarrow> Inl (TypeError (js ''mcp.uses.map is not a function'')))"

definition show_mcp :: "mcp_researcher_output \<Rightarrow> thrown + jsstring" where
  "show_mcp m =
     and_then (to_string (purpose m)) (\<lambda>purpose'.
     and_then (map_uses (uses m)) (\<lambda>lines.
     Inr (js ''### '' @ mcp m @ js ''\<newline>Purpose: '' @ purpose'
            @ js ''\<newline>Dependencies:\<newline>'' @ join (js ''\<newline>'') lines)))"

definition engineer_userMessage ::
  "api_researcher_output list \<Rightarrow> mcp_researcher_output list \<Rightarrow> thrown + jsstring" where
  "engineer_userMessage apiChanges mcpDependencies =
     and_then (traverse show_provider apiChanges) (\<lambda>providers.
     and_then (traverse show_mcp mcpDependencies) (\<lambda>mcps.
     Inr (js ''Analyze these API changes and determine their impact on the MCP servers:\<newline>\<newline>## API Changes Detected\<newline>\<newline>''
            @ join (js ''\<newline>\<newline>'') providers
            @ js ''\<newline>\<newline>## MCP Server Dependencies\<newline>\<newline>''
            @ join (js ''\<newline>\<newline>'') mcps
            @ js ''\<newline>\<newline>Based on this information, determine what action is needed and return as JSON.'')))"

text \<open>
  \<^verbatim>\<open>decideAction\<close>. Without changes it returns at once; otherwise the message is built,
  the service is called once and an unusable answer is replaced by the fall-back
  decision. A usable answer is returned as it is.
\<close>

definition decideAction ::
  "env \<Rightarrow> api_researcher_output list \<Rightarrow> mcp_researcher_output list \<Rightarrow> world
     \<Rightarrow> (thrown + jsval) \<times> world" where
  "decideAction e apiChanges mcpDependencies w =
     (let allChanges = concat (map changes apiChanges) in
      if length allChanges = 0
      then (Inr (engineer_output (js ''none'')
                   (js ''No API changes detected in monitored sources.'') []
                   (js ''No action needed'') []), w)
      else
        (case engineer_userMessage apiChanges mcpDependencies of
           Inl err \<Rightarrow> (Inl err, w)
         | Inr userMessage \<Rightarrow>
             (case callLLM e ENGINEER_SYSTEM_PROMPT userMessage w of
                (Inl err, w') \<Rightarrow> (Inl err, w')
              | (Inr response, w') \<Rightarrow>
                  (case usable_data response of
                     None \<Rightarrow>
                       (Inr (engineer_output (js ''notify'')
                               (js (show_nat (length allChanges))
                                  @ js '' API change(s) detected but automated analysis failed. Manual review recommended.'')
                               [] (js ''Review API changes manually'') []), w')
                   | Some d \<Rightarrow> (Inr d, w')))))"
section \<open>Persistence of the state (\<^verbatim>\<open>source-checker.ts\<close>)\<close>

text \<open>
  \<^verbatim>\<open>CheckState\<close>: the states of the sources by key, the optional cache of the MCP
  researcher and the time of the last check or \<^verbatim>\<open>null\<close>.
\<close>

record check_state =
  sources :: "jsstring \<rightharpoonup> source_check_state"
  mcpCache :: "mcp_researcher_cache option"
  lastCheck :: "date_string option"

text \<open>
  The files are a partial map from paths to contents. An operation on them is a
  \<^verbatim>\<open>writeFile\<close> or a \<^verbatim>\<open>rename\<close>. \<^verbatim>\<open>fs.writeFile(path, data)\<close> opens the file with the
  flag \<^verbatim>\<open>w\<close>, which creates or truncates it, and then writes the data from the start;
  \<^verbatim>\<open>fs.rename\<close> replaces the target in one step.
  \<open>complete x files\<close> is the file system after the operation \<open>x\<close>; \<open>interrupted x files\<close>
  lists the file systems that a crash during the operation can leave: for a write, the
  file with any prefix of the data, and the file system before the operation.
\<close>

type_synonym files = "jsstring \<rightharpoonup> jsstring"

datatype fs_op = WriteFile jsstring jsstring | Rename jsstring jsstring

fun complete :: "fs_op \<Rightarrow> files \<Rightarrow> files" where
  "complete (WriteFile p d) files = files(p \<mapsto> d)"
| "complete (Rename a b) files =
     (case files a of None \<Rightarrow> files | Some d \<Rightarrow> (files(a := None))(b \<mapsto> d))"

fun interrupted :: "fs_op \<Rightarrow> files \<Rightarrow> files list" where
  "interrupted (WriteFile p d) files = files # map (\<lambda>k. files(p \<mapsto> take k d)) [0..<length d]"
| "interrupted (Rename a b) files = [files]"

text \<open>
  A run of a list of operations that a crash may stop: all the file systems that can be
  left behind, the last being that of the complete run.
\<close>

fun outcomes :: "fs_op list \<Rightarrow> files \<Rightarrow> files list" where
  "outcomes [] files = [files]"
| "outcomes (x # xs) files = interrupted x files @ outcomes xs (complete x files)"

text \<open>
  \<^verbatim>\<open>saveCheckState\<close> is one \<^verbatim>\<open>writeFile\<close> of \<^verbatim>\<open>JSON.stringify(state, null, 2)\<close> to the
  path of the state; \<open>JSON_stringify\<close> stands for that serialisation.
  \<^verbatim>\<open>loadCheckState\<close> reads and parses the file, and returns the empty state when either
  fails.
\<close>

definition saveCheckState :: "(check_state \<Rightarrow> jsstring) \<Rightarrow> jsstring \<Rightarrow> check_state \<Rightarrow> fs_op list" where
  "saveCheckState JSON_stringify statePath state = [WriteFile statePath (JSON_stringify state)]"

definition loadCheckState :: "(jsstring \<Rightarrow> check_state option) \<Rightarrow> jsstring \<Rightarrow> files \<Rightarrow> check_state" where
  "loadCheckState JSON_parse statePath files =
     (case files statePath of
        None \<Rightarrow> \<lparr>sources = Map.empty, mcpCache = None, lastCheck = None\<rparr>
      | Some content' \<Rightarrow>
          (case JSON_parse content' of
             None \<Rightarrow> \<lparr>sources = Map.empty, mcpCache = None, lastCheck = None\<rparr>
           | Some state \<Rightarrow> state))"

text \<open>
  What the specification asks of a save: write to a temporary file, then rename it onto
  the path of the state.
\<close>

definition save_via_rename_spec :: "jsstring \<Rightarrow> jsstring \<Rightarrow> jsstring \<Rightarrow> fs_op list" where
  "save_via_rename_spec tmpPath statePath text = [WriteFile tmpPath text, Rename tmpPath statePath]"

section \<open>Notions used in the statements\<close>


definition is_timestamp :: "jsstring \<Rightarrow> bool" where
  "is_timestamp t \<longleftrightarrow> length t = 19 \<and> matches timestamp_re t"

text \<open>
  The answer of the service to the request that ends the list \<open>sent\<close>, as \<^verbatim>\<open>callLLM\<close>
  reads it: the value that \<^verbatim>\<open>JSON.parse\<close> gives for the part of the first text block
  that goes from the first \<^verbatim>\<open>{\<close> to the last \<^verbatim>\<open>}\<close>. There is none when the request is
  rejected (a transport error), when the answer has no text block (no result), when
  the text has no such part, or when \<^verbatim>\<open>JSON.parse\<close> rejects the part (not JSON). The
  answer is usable when it is truthy (as is every value that \<^verbatim>\<open>JSON.parse\<close> gives for a
  text that starts with a brace), and the call fails when there is no usable answer.
\<close>

definition service_answer :: "env \<Rightarrow> (jsstring \<times> jsstring) list \<Rightarrow> jsval option" where
  "service_answer e sent =
     (case messages_create e sent of
        Rejected err \<Rightarrow> None
      | Resolved response \<Rightarrow>
          (case find is_text (response_content response) of
             None \<Rightarrow> None
           | Some OtherBlock \<Rightarrow> None
           | Some (TextBlock text) \<Rightarrow>
               (case json_match text of
                  None \<Rightarrow> None
                | Some jsonMatch \<Rightarrow>
                    (case json_parse e jsonMatch of Inl err \<Rightarrow> None | Inr d \<Rightarrow> Some d))))"

definition usable_answer :: "env \<Rightarrow> (jsstring \<times> jsstring) list \<Rightarrow> jsval option" where
  "usable_answer e sent =
     (case service_answer e sent of
        None \<Rightarrow> None
      | Some d \<Rightarrow> if truthy d then Some d else None)"


section \<open>Example inputs\<close>

text \<open>
  The concrete inputs at which the theorems below are instantiated. \<open>parse_table\<close> is
  \<^verbatim>\<open>JSON.parse\<close> on the texts of the examples: a text that is parsed in an example is
  listed with the value that \<^verbatim>\<open>JSON.parse\<close> gives for it, or it is no JSON and
  \<^verbatim>\<open>JSON.parse\<close> throws a \<^verbatim>\<open>SyntaxError\<close>. \<open>example_service\<close> answers the \<open>n\<close>-th request
  with the \<open>n\<close>-th of the given texts, behind a block that is no text.
\<close>

definition parse_table :: "(jsstring \<times> jsval) list \<Rightarrow> jsstring \<Rightarrow> thrown + jsval" where
  "parse_table table text =
     (case map_of table text of
        Some v \<Rightarrow> Inr v
      | None \<Rightarrow> Inl (Error (js ''Unexpected token in JSON'')))"

definition example_answer :: "jsstring \<Rightarrow> api_outcome" where
  "example_answer text =
     Resolved \<lparr>response_content = [OtherBlock, TextBlock text], input_tokens = 10,
               output_tokens = 5\<rparr>"

definition example_service :: "jsstring list \<Rightarrow> (jsstring \<times> jsstring) list \<Rightarrow> api_outcome" where
  "example_service texts sent =
     (case drop (length sent - 1) texts of
        [] \<Rightarrow> Rejected (Error (js ''connection refused''))
      | text # later \<Rightarrow> example_answer text)"

definition example_info :: mcp_info where
  "example_info =
     \<lparr>name = js ''mcp-weather'', path = js ''/repo/mcp-weather'', useCase = js ''Weather'',
      targetAudience = js ''Everyone'', tools = [js ''forecast''],
      upstreamApis = [\<lparr>api_name = js ''SMHI'', baseUrl = js ''https://smhi.example'',
                       source = js ''client.ts''\<rparr>]\<rparr>"

definition example_profile :: mcp_researcher_output where
  "example_profile =
     \<lparr>mcp = js ''mcp-weather'',
      uses = Arr [Obj [(js ''api'', Str (js ''SMHI'')),
                       (js ''endpoints'', Arr [Str (js ''/forecast'')]),
                       (js ''critical'', Bool True)]],
      purpose = Str (js ''Weather forecasts'')\<rparr>"

definition example_cache :: "int \<Rightarrow> mcp_researcher_cache" where
  "example_cache day =
     [js ''mcp-weather'' \<mapsto> \<lparr>entry_data = example_profile, timestamp = IsoString (day * 86400000)\<rparr>]"

text \<open>
  An answer of the service to the MCP researcher, and what \<^verbatim>\<open>JSON.parse\<close> gives for
  its part in braces.
\<close>

definition profile_answer :: jsstring where
  "profile_answer =
     js ''Here it is: {\"uses\": [{\"api\": \"SMHI Open Data\", \"endpoints\": [], \"critical\": false}], \"purpose\": \"Forecasts\"} Done.''"

definition profile_json :: jsstring where
  "profile_json =
     js ''{\"uses\": [{\"api\": \"SMHI Open Data\", \"endpoints\": [], \"critical\": false}], \"purpose\": \"Forecasts\"}''"

definition profile_value :: jsval where
  "profile_value =
     Obj [(js ''uses'', Arr [Obj [(js ''api'', Str (js ''SMHI Open Data'')),
                                  (js ''endpoints'', Arr []),
                                  (js ''critical'', Bool False)]]),
          (js ''purpose'', Str (js ''Forecasts''))]"

text \<open>
  Two pages of one provider and the answers of the service to the API researcher for
  them. The second answer repeats a title of the first and adds a new one.
\<close>

definition example_pages :: "page list" where
  "example_pages =
     [\<lparr>page_url = js ''https://smhi.example/news'', page_content = js ''Version 1 is removed''\<rparr>,
      \<lparr>page_url = js ''https://smhi.example/docs'', page_content = js ''Limits apply''\<rparr>]"

definition news_answer :: jsstring where
  "news_answer =
     js ''Found: {\"changes\": [{\"title\": \"v1 sunset\", \"sourceUrl\": \"https://smhi.example/v1\"}, {\"title\": \"New endpoint\"}], \"noChangesDetected\": false}''"

definition news_json :: jsstring where
  "news_json =
     js ''{\"changes\": [{\"title\": \"v1 sunset\", \"sourceUrl\": \"https://smhi.example/v1\"}, {\"title\": \"New endpoint\"}], \"noChangesDetected\": false}''"

definition news_value :: jsval where
  "news_value =
     Obj [(js ''changes'',
           Arr [Obj [(js ''title'', Str (js ''v1 sunset'')),
                     (js ''sourceUrl'', Str (js ''https://smhi.example/v1''))],
                Obj [(js ''title'', Str (js ''New endpoint''))]]),
          (js ''noChangesDetected'', Bool False)]"

definition docs_json :: jsstring where
  "docs_json =
     js ''{\"changes\": [{\"title\": \"v1 sunset\", \"summary\": \"Again\"}, {\"title\": \"Rate limits\"}]}''"

definition docs_value :: jsval where
  "docs_value =
     Obj [(js ''changes'',
           Arr [Obj [(js ''title'', Str (js ''v1 sunset'')), (js ''summary'', Str (js ''Again''))],
                Obj [(js ''title'', Str (js ''Rate limits''))]])]"

definition example_env :: "int \<Rightarrow> jsstring list \<Rightarrow> env" where
  "example_env day texts =
     \<lparr>ANTHROPIC_API_KEY = Some (js ''sk-test''),
      messages_create = example_service texts,
      json_parse = parse_table [(profile_json, profile_value), (news_json, news_value),
                                (docs_json, docs_value), (js ''{}'', Obj [])],
      date_now = (\<lambda>n. day * 86400000 + int n),
      readFile = (\<lambda>p. None),
      readdir = (\<lambda>p. None),
      path_join = join (js ''/'')\<rparr>"


section \<open>Properties of the source checker\<close>

lemma js_Nil_iff [simp]: "js s = [] \<longleftrightarrow> s = []"
  by (simp add: js_def)

subsection \<open>The hash has 16 code units\<close>

lemma length_rounds: "length (rounds ks ws s) = length s"
  by (induction ks ws s rule: rounds.induct) (auto simp: Let_def)

lemma length_compress: "length h = 8 \<Longrightarrow> length (compress h blk) = 8"
  by (simp add: compress_def length_rounds)

lemma length_blocks: "length h = 8 \<Longrightarrow> length (blocks h ws) = 8"
proof (induction h ws rule: blocks.induct)
  case (1 h ws)
  then show ?case
    by (subst blocks.simps) (simp add: length_compress)
qed

lemma length_sha256_hex: "length (sha256_hex m) = 64"
proof -
  have "length (sha256 m) = 8"
    by (simp add: sha256_def length_blocks H256_def)
  then obtain a b c d e f g h where "sha256 m = [a, b, c, d, e, f, g, h]"
    by (auto simp: length_Suc_conv eval_nat_numeral)
  then show ?thesis
    by (simp add: sha256_hex_def js_def hex32_def)
qed

lemma length_hashContent: "length (hashContent content') = 16"
  by (simp add: hashContent_def Let_def length_sha256_hex)

lemma hashContent_not_empty: "hashContent content' \<noteq> []"
  using length_hashContent [of content'] by auto

subsection \<open>Classification of a fetch\<close>

text \<open>
  No member of \<^verbatim>\<open>Object.prototype\<close> has a colon in its name, so a URL that \<^verbatim>\<open>fetch\<close>
  accepts is looked up among the stored entries only.
\<close>

lemma prototype_member_no_colon:
  "key \<in> set object_prototype_members \<Longrightarrow> of_char CHR '':'' \<notin> set key"
  by (auto simp: object_prototype_members_def js_def)

lemma fetch_Responded_colon:
  "fetch network input = Responded rs body \<Longrightarrow> of_char CHR '':'' \<in> set input"
  by (simp add: fetch_def split: if_splits)

lemma lookup_fetched:
  assumes "fetch network key = Responded rs body"
  shows "lookup object key = (case object key of Some entry \<Rightarrow> Own entry | None \<Rightarrow> Absent)"
proof -
  have "key \<notin> set object_prototype_members"
    using prototype_member_no_colon [of key] fetch_Responded_colon [OF assms] by blast
  then show ?thesis
    by (simp add: lookup_def)
qed

text \<open>
  Claim C1. After a successful fetch, \<^verbatim>\<open>checkSingleSource\<close> classifies from the prior
  state of the URL: without a prior entry it returns one change of type \<^verbatim>\<open>new\<close> with
  the extracted text and the current hash; with a prior entry whose hash is the hash of
  the fetched content it returns no change; with a prior entry of another hash it returns
  one change of type \<^verbatim>\<open>modified\<close> with the prior hash as \<^verbatim>\<open>previousHash\<close>, the new
  hash as \<^verbatim>\<open>currentHash\<close> and the extracted text.
\<close>

theorem checkSingleSource_success:
  "fetch network (url pageEntry) = Responded rs body \<Longrightarrow>
     (sourceState (url pageEntry) = None \<longrightarrow>
            fst (checkSingleSource network k n pageEntry sourceState now) =
              Some \<lparr>apiKey = k, apiName = n, change_url = url pageEntry,
                    change_description = description pageEntry, changeType = New,
                    content = Some (extractTextContent body), previousHash = None,
                    currentHash = Some (hashContent body), previousStatus = None,
                    currentStatus = Some rs\<rparr>)
       \<and> (\<forall>prev. sourceState (url pageEntry) = Some prev \<and> hash prev = hashContent body \<longrightarrow>
            fst (checkSingleSource network k n pageEntry sourceState now) = None)
       \<and> (\<forall>prev. sourceState (url pageEntry) = Some prev \<and> hash prev \<noteq> hashContent body \<longrightarrow>
            fst (checkSingleSource network k n pageEntry sourceState now) =
              Some \<lparr>apiKey = k, apiName = n, change_url = url pageEntry,
                    change_description = description pageEntry, changeType = Modified,
                    content = Some (extractTextContent body), previousHash = Some (hash prev),
                    currentHash = Some (hashContent body), previousStatus = Some (status prev),
                    currentStatus = Some rs\<rparr>)"
  using lookup_fetched [of network "url pageEntry" rs body sourceState]
  by (simp add: checkSingleSource_def Let_def)

theorem checkSingleSource_success_witness:
  "fst (checkSingleSource (\<lambda>u. Responded 200 (js ''<p>v2</p>'')) (js ''smhi'') (js ''SMHI'')
          \<lparr>url = js ''https://example.org/news'', description = js ''News''\<rparr>
          Map.empty 1000)
     = Some \<lparr>apiKey = js ''smhi'', apiName = js ''SMHI'', change_url = js ''https://example.org/news'',
             change_description = js ''News'', changeType = New,
             content = Some (extractTextContent (js ''<p>v2</p>'')), previousHash = None,
             currentHash = Some (hashContent (js ''<p>v2</p>'')), previousStatus = None,
             currentStatus = Some 200\<rparr>
   \<and> fst (checkSingleSource (\<lambda>u. Responded 200 (js ''<p>v2</p>'')) (js ''smhi'') (js ''SMHI'')
          \<lparr>url = js ''https://example.org/news'', description = js ''News''\<rparr>
          [js ''https://example.org/news'' \<mapsto>
             \<lparr>hash = hashContent (js ''<p>v2</p>''), lastChecked = IsoString 0, status = 200\<rparr>]
          1000)
     = None
   \<and> fst (checkSingleSource (\<lambda>u. Responded 200 (js ''<p>v2</p>'')) (js ''smhi'') (js ''SMHI'')
          \<lparr>url = js ''https://example.org/news'', description = js ''News''\<rparr>
          [js ''https://example.org/news'' \<mapsto>
             \<lparr>hash = js ''abc'', lastChecked = IsoString 0, status = 200\<rparr>]
          1000)
     = Some \<lparr>apiKey = js ''smhi'', apiName = js ''SMHI'', change_url = js ''https://example.org/news'',
             change_description = js ''News'', changeType = Modified,
             content = Some (extractTextContent (js ''<p>v2</p>'')), previousHash = Some (js ''abc''),
             currentHash = Some (hashContent (js ''<p>v2</p>'')), previousStatus = Some 200,
             currentStatus = Some 200\<rparr>"
proof -
  let ?pe = "\<lparr>url = js ''https://example.org/news'', description = js ''News''\<rparr>"
  let ?body = "js ''<p>v2</p>''"
  let ?net = "\<lambda>u :: jsstring. Responded 200 ?body"
  have "length (js ''abc'') \<noteq> length (hashContent ?body)"
    by (simp add: length_hashContent js_def)
  then have ne: "js ''abc'' \<noteq> hashContent ?body" by auto
  have f: "fetch ?net (url ?pe) = Responded 200 ?body"
    by (simp add: fetch_def js_def)
  show ?thesis
    using checkSingleSource_success [OF f, of Map.empty "js ''smhi''" "js ''SMHI''" 1000]
      checkSingleSource_success [OF f, of "[js ''https://example.org/news'' \<mapsto>
             \<lparr>hash = hashContent ?body, lastChecked = IsoString 0, status = 200\<rparr>]"
          "js ''smhi''" "js ''SMHI''" 1000]
      checkSingleSource_success [OF f, of "[js ''https://example.org/news'' \<mapsto>
             \<lparr>hash = js ''abc'', lastChecked = IsoString 0, status = 200\<rparr>]"
          "js ''smhi''" "js ''SMHI''" 1000] ne
    by simp
qed


text \<open>
  Claim C7. After a failed fetch the stored status of the URL is 0. If the URL had a
  prior entry with a status other than 0, one change of type \<^verbatim>\<open>unavailable\<close> is
  returned, with that status as \<^verbatim>\<open>previousStatus\<close> and 0 as \<^verbatim>\<open>currentStatus\<close>; if
  the prior status was 0 or the URL had no entry, no change is returned. A URL without
  an entry is one that the lookup does not find; it is not the name of a member of
  \<^verbatim>\<open>Object.prototype\<close>, as no URL is (a URL has a scheme, which ends at a colon).
\<close>

theorem checkSingleSource_failure:
  "fetch network (url pageEntry) = Failed \<Longrightarrow>
     snd (checkSingleSource network k n pageEntry sourceState now) (url pageEntry)
       = Some \<lparr>hash = [], lastChecked = IsoString now, status = 0\<rparr>
     \<and> (\<forall>prev. sourceState (url pageEntry) = Some prev \<and> status prev \<noteq> 0 \<longrightarrow>
           fst (checkSingleSource network k n pageEntry sourceState now) =
             Some \<lparr>apiKey = k, apiName = n, change_url = url pageEntry,
                   change_description = description pageEntry, changeType = Unavailable,
                   content = None, previousHash = None, currentHash = None,
                   previousStatus = Some (status prev), currentStatus = Some 0\<rparr>)
     \<and> (\<forall>prev. sourceState (url pageEntry) = Some prev \<and> status prev = 0 \<longrightarrow>
           fst (checkSingleSource network k n pageEntry sourceState now) = None)
     \<and> (sourceState (url pageEntry) = None \<and> url pageEntry \<notin> set object_prototype_members \<longrightarrow>
           fst (checkSingleSource network k n pageEntry sourceState now) = None)"
  by (simp add: checkSingleSource_def lookup_def Let_def split: lookup.splits)

theorem checkSingleSource_failure_witness:
  "fst (checkSingleSource (\<lambda>u. Failed) (js ''smhi'') (js ''SMHI'')
          \<lparr>url = js ''https://example.org/news'', description = js ''News''\<rparr>
          [js ''https://example.org/news'' \<mapsto>
             \<lparr>hash = js ''abc'', lastChecked = IsoString 0, status = 200\<rparr>] 1000)
     = Some \<lparr>apiKey = js ''smhi'', apiName = js ''SMHI'', change_url = js ''https://example.org/news'',
             change_description = js ''News'', changeType = Unavailable,
             content = None, previousHash = None, currentHash = None,
             previousStatus = Some 200, currentStatus = Some 0\<rparr>
   \<and> snd (checkSingleSource (\<lambda>u. Failed) (js ''smhi'') (js ''SMHI'')
          \<lparr>url = js ''https://example.org/news'', description = js ''News''\<rparr>
          [js ''https://example.org/news'' \<mapsto>
             \<lparr>hash = js ''abc'', lastChecked = IsoString 0, status = 200\<rparr>] 1000)
        (js ''https://example.org/news'')
     = Some \<lparr>hash = [], lastChecked = IsoString 1000, status = 0\<rparr>
   \<and> fst (checkSingleSource (\<lambda>u. Failed) (js ''smhi'') (js ''SMHI'')
          \<lparr>url = js ''https://example.org/news'', description = js ''News''\<rparr>
          [js ''https://example.org/news'' \<mapsto>
             \<lparr>hash = [], lastChecked = IsoString 0, status = 0\<rparr>] 1000)
     = None
   \<and> fst (checkSingleSource (\<lambda>u. Failed) (js ''smhi'') (js ''SMHI'')
          \<lparr>url = js ''https://example.org/news'', description = js ''News''\<rparr>
          Map.empty 1000)
     = None"
proof -
  let ?pe = "\<lparr>url = js ''https://example.org/news'', description = js ''News''\<rparr>"
  let ?down = "\<lambda>u :: jsstring. Failed"
  have f: "fetch ?down (url ?pe) = Failed"
    by (simp add: fetch_def)
  have "of_char CHR '':'' \<in> set (js ''https://example.org/news'')"
    by (simp add: js_def)
  then have u: "js ''https://example.org/news'' \<notin> set object_prototype_members"
    using prototype_member_no_colon [of "js ''https://example.org/news''"] by blast
  show ?thesis
    using checkSingleSource_failure [OF f, of "js ''smhi''" "js ''SMHI''"
            "[js ''https://example.org/news'' \<mapsto>
               \<lparr>hash = js ''abc'', lastChecked = IsoString 0, status = 200\<rparr>]" 1000]
      checkSingleSource_failure [OF f, of "js ''smhi''" "js ''SMHI''"
            "[js ''https://example.org/news'' \<mapsto>
               \<lparr>hash = [], lastChecked = IsoString 0, status = 0\<rparr>]" 1000]
      checkSingleSource_failure [OF f, of "js ''smhi''" "js ''SMHI''" Map.empty 1000] u
    by simp
qed

text \<open>
  A string that is the name of a member of \<^verbatim>\<open>Object.prototype\<close> is no URL, and \<^verbatim>\<open>fetch\<close>
  rejects it. The lookup \<^verbatim>\<open>sourceState[url]\<close> finds the inherited member: for
  \<^verbatim>\<open>constructor\<close> and a state without any entry, \<^verbatim>\<open>previousCheck\<close> is a function, its
  \<^verbatim>\<open>status\<close> is \<^verbatim>\<open>undefined\<close> and not 0, and a change of type \<^verbatim>\<open>unavailable\<close> is returned,
  without a previous status.
\<close>

lemma checkSingleSource_inherited_member:
  "fetch network (js ''constructor'') = Failed
   \<and> fst (checkSingleSource network (js ''smhi'') (js ''SMHI'')
            \<lparr>url = js ''constructor'', description = js ''News''\<rparr> Map.empty 1000)
       = Some \<lparr>apiKey = js ''smhi'', apiName = js ''SMHI'', change_url = js ''constructor'',
               change_description = js ''News'', changeType = Unavailable,
               content = None, previousHash = None, currentHash = None,
               previousStatus = None, currentStatus = Some 0\<rparr>"
  by (simp add: checkSingleSource_def fetch_def lookup_def object_prototype_members_def Let_def
        js_def)


text \<open>
  Claim C10. A failed fetch stores the empty string as the hash of the URL. So when a
  URL that was reachable with hash \<open>H\<close> fails and later answers with content of the same
  hash \<open>H\<close>, the later check returns a change of type \<^verbatim>\<open>modified\<close> whose
  \<^verbatim>\<open>previousHash\<close> is the empty string.
\<close>

theorem recovery_reported_as_modified:
  "(fetch down (url pageEntry) = Failed \<longrightarrow>
      map_option hash (snd (checkSingleSource down k n pageEntry sourceState t1) (url pageEntry))
        = Some [])
   \<and> (\<forall>prev. fetch down (url pageEntry) = Failed
         \<and> fetch up (url pageEntry) = Responded rs body
         \<and> sourceState (url pageEntry) = Some prev \<and> status prev \<noteq> 0
         \<and> hash prev = hashContent body \<longrightarrow>
        fst (checkSingleSource up k n pageEntry
               (snd (checkSingleSource down k n pageEntry sourceState t1)) t2) =
          Some \<lparr>apiKey = k, apiName = n, change_url = url pageEntry,
                change_description = description pageEntry, changeType = Modified,
                content = Some (extractTextContent body), previousHash = Some [],
                currentHash = Some (hash prev), previousStatus = Some 0,
                currentStatus = Some rs\<rparr>)"
  using hashContent_not_empty [of body]
  by (auto simp: checkSingleSource_def lookup_def Let_def split: lookup.splits)

theorem recovery_reported_as_modified_witness:
  "fst (checkSingleSource (\<lambda>u. Responded 200 (js ''<p>v2</p>'')) (js ''smhi'') (js ''SMHI'')
          \<lparr>url = js ''https://example.org/news'', description = js ''News''\<rparr>
          (snd (checkSingleSource (\<lambda>u. Failed) (js ''smhi'') (js ''SMHI'')
                  \<lparr>url = js ''https://example.org/news'', description = js ''News''\<rparr>
                  [js ''https://example.org/news'' \<mapsto>
                     \<lparr>hash = hashContent (js ''<p>v2</p>''), lastChecked = IsoString 0,
                      status = 200\<rparr>]
                  1000))
          2000)
     = Some \<lparr>apiKey = js ''smhi'', apiName = js ''SMHI'', change_url = js ''https://example.org/news'',
             change_description = js ''News'', changeType = Modified,
             content = Some (extractTextContent (js ''<p>v2</p>'')), previousHash = Some [],
             currentHash = Some (hashContent (js ''<p>v2</p>'')), previousStatus = Some 0,
             currentStatus = Some 200\<rparr>
   \<and> map_option hash
        (snd (checkSingleSource (\<lambda>u. Failed) (js ''smhi'') (js ''SMHI'')
                \<lparr>url = js ''https://example.org/news'', description = js ''News''\<rparr>
                [js ''https://example.org/news'' \<mapsto>
                   \<lparr>hash = hashContent (js ''<p>v2</p>''), lastChecked = IsoString 0,
                    status = 200\<rparr>]
                1000) (js ''https://example.org/news''))
     = Some []"
proof -
  let ?pe = "\<lparr>url = js ''https://example.org/news'', description = js ''News''\<rparr>"
  let ?body = "js ''<p>v2</p>''"
  let ?up = "\<lambda>u :: jsstring. Responded 200 ?body"
  let ?down = "\<lambda>u :: jsstring. Failed"
  have f: "fetch ?up (url ?pe) = Responded 200 ?body" "fetch ?down (url ?pe) = Failed"
    by (simp_all add: fetch_def js_def)
  show ?thesis
    using recovery_reported_as_modified [of ?down ?pe "js ''smhi''" "js ''SMHI''"
          "[js ''https://example.org/news'' \<mapsto>
             \<lparr>hash = hashContent ?body, lastChecked = IsoString 0, status = 200\<rparr>]"
          1000 ?up 200 ?body 2000] f
    by simp
qed
subsection \<open>What the hash ignores\<close>


































subsection \<open>What the hash does not ignore\<close>




text \<open>
  The condition on the code unit before a time stamp is needed as well. In the two
  contents below the last 19 code units are time stamps and the rest is the same, but the
  scan finds a match that starts earlier and ends inside them, so the texts that are
  hashed differ.
\<close>

lemma overlapping_timestamps:
  "is_timestamp (js ''2024-01-01T10:00:00'') \<and> is_timestamp (js ''3025-01-01T10:00:00'')
   \<and> trim (replace_timestamps (replace_whitespace
              (js ''2024-01-01T10:00:'' @ js ''2024-01-01T10:00:00'')))
       = js ''[timestamp]24-01-01T10:00:00''
   \<and> trim (replace_timestamps (replace_whitespace
              (js ''2024-01-01T10:00:'' @ js ''3025-01-01T10:00:00'')))
       = js ''[timestamp]25-01-01T10:00:00''"
  by (simp add: is_timestamp_def js_def timestamp_re_def is_digit_def digit_units_def lit_def
        trim_def is_space_def ws_units_def)

section \<open>Properties of the analysis stages\<close>

subsection \<open>Calls of the service\<close>

lemma callLLM_without_key:
  "getClient e = Inl err \<Longrightarrow> callLLM e systemPrompt userMessage w = (Inl err, w)"
  by (simp add: callLLM_def)

lemma callLLM_answer:
  "getClient e = Inr () \<Longrightarrow>
     \<exists>r. callLLM e systemPrompt userMessage w
            = (Inr r, w\<lparr>requests := requests w @ [(systemPrompt, userMessage)]\<rparr>)
          \<and> usable_data r = usable_answer e (requests w @ [(systemPrompt, userMessage)])"
  by (auto simp: callLLM_def service_answer_def usable_answer_def usable_data_def failure_def
                 Let_def
           split: api_outcome.splits option.splits content_block.splits sum.splits)

lemma research_answer:
  assumes "getClient e = Inr ()"
  shows "research e mcpInfo w
           = (Inr (case usable_answer e
                          (requests w @ [(MCP_RESEARCHER_SYSTEM_PROMPT, mcp_userMessage e mcpInfo)]) of
                     None \<Rightarrow> fallback_profile mcpInfo
                   | Some d \<Rightarrow>
                       \<lparr>mcp = name mcpInfo, uses = property d (js ''uses''),
                        purpose = property d (js ''purpose'')\<rparr>),
              w\<lparr>requests := requests w
                   @ [(MCP_RESEARCHER_SYSTEM_PROMPT, mcp_userMessage e mcpInfo)]\<rparr>)"
proof -
  obtain r where "callLLM e MCP_RESEARCHER_SYSTEM_PROMPT (mcp_userMessage e mcpInfo) w
                    = (Inr r, w\<lparr>requests := requests w
                         @ [(MCP_RESEARCHER_SYSTEM_PROMPT, mcp_userMessage e mcpInfo)]\<rparr>)"
    and "usable_data r = usable_answer e
           (requests w @ [(MCP_RESEARCHER_SYSTEM_PROMPT, mcp_userMessage e mcpInfo)])"
    using callLLM_answer [OF assms] by blast
  then show ?thesis
    by (simp add: research_def split: option.splits)
qed

subsection \<open>Stage 2: the cache\<close>

text \<open>
  Claim C2. With an entry of the MCP in the cache, stored at time \<open>T\<close>, a call of
  \<^verbatim>\<open>analyzeMcpDependencies\<close> at time \<open>T'\<close> returns the data of the entry, and sends no
  request to the service, when \<open>T' - T\<close> is less than 30 days. When \<open>T' - T\<close> is 30 days
  or more, or there is no cache or no entry, and the key of the service is set, it sends
  one request to the service, the prompt of the MCP researcher with the message about
  this MCP, and returns the profile computed from the answer: \<^verbatim>\<open>uses\<close> and \<^verbatim>\<open>purpose\<close> are
  those of the answer, or, when the call fails, the profile is the one made from the
  discovered upstream APIs.
\<close>

theorem analyzeMcpDependencies_cache:
  "(\<forall>c cached T. cache = Some c \<and> c (name mcpInfo) = Some cached
        \<and> timestamp cached = IsoString T
        \<and> date_now e (clock_reads w) - T < 30 * 24 * 60 * 60 * 1000 \<longrightarrow>
      fst (analyzeMcpDependencies e mcpInfo cache w) = Inr (entry_data cached)
      \<and> requests (snd (analyzeMcpDependencies e mcpInfo cache w)) = requests w)
   \<and> (getClient e = Inr ()
        \<and> ((\<exists>c cached T. cache = Some c \<and> c (name mcpInfo) = Some cached
               \<and> timestamp cached = IsoString T
               \<and> date_now e (clock_reads w) - T \<ge> 30 * 24 * 60 * 60 * 1000)
            \<or> cache = None \<or> (\<exists>c. cache = Some c \<and> c (name mcpInfo) = None)) \<longrightarrow>
      requests (snd (analyzeMcpDependencies e mcpInfo cache w))
        = requests w @ [(MCP_RESEARCHER_SYSTEM_PROMPT, mcp_userMessage e mcpInfo)]
      \<and> fst (analyzeMcpDependencies e mcpInfo cache w)
        = Inr (case usable_answer e
                      (requests w @ [(MCP_RESEARCHER_SYSTEM_PROMPT, mcp_userMessage e mcpInfo)]) of
                 Some d \<Rightarrow>
                   \<lparr>mcp = name mcpInfo, uses = property d (js ''uses''),
                    purpose = property d (js ''purpose'')\<rparr>
               | None \<Rightarrow>
                   \<lparr>mcp = name mcpInfo,
                    uses = Arr (map (\<lambda>a. Obj [(js ''api'', Str (api_name a)),
                                              (js ''endpoints'', Arr []),
                                              (js ''critical'', Bool True)])
                                 (upstreamApis mcpInfo)),
                    purpose = Str (if useCase mcpInfo \<noteq> [] then useCase mcpInfo
                                   else js ''Unknown'')\<rparr>))"
proof (intro conjI allI impI)
  fix c cached T
  assume "cache = Some c \<and> c (name mcpInfo) = Some cached \<and> timestamp cached = IsoString T
            \<and> date_now e (clock_reads w) - T < 30 * 24 * 60 * 60 * 1000"
  then show "fst (analyzeMcpDependencies e mcpInfo cache w) = Inr (entry_data cached)"
    and "requests (snd (analyzeMcpDependencies e mcpInfo cache w)) = requests w"
    by (simp_all add: analyzeMcpDependencies_def lookup_def read_clock_def
          CACHE_DURATION_DAYS_def Let_def)
next
  assume a: "getClient e = Inr ()
        \<and> ((\<exists>c cached T. cache = Some c \<and> c (name mcpInfo) = Some cached
               \<and> timestamp cached = IsoString T
               \<and> date_now e (clock_reads w) - T \<ge> 30 * 24 * 60 * 60 * 1000)
            \<or> cache = None \<or> (\<exists>c. cache = Some c \<and> c (name mcpInfo) = None))"
  then have k: "getClient e = Inr ()" by simp
  have "analyzeMcpDependencies e mcpInfo cache w = research e mcpInfo w
          \<or> analyzeMcpDependencies e mcpInfo cache w
              = research e mcpInfo (w\<lparr>clock_reads := Suc (clock_reads w)\<rparr>)"
    using a
    by (auto simp: analyzeMcpDependencies_def lookup_def read_clock_def
          CACHE_DURATION_DAYS_def Let_def)
  then show "requests (snd (analyzeMcpDependencies e mcpInfo cache w))
        = requests w @ [(MCP_RESEARCHER_SYSTEM_PROMPT, mcp_userMessage e mcpInfo)]"
    and "fst (analyzeMcpDependencies e mcpInfo cache w)
        = Inr (case usable_answer e
                      (requests w @ [(MCP_RESEARCHER_SYSTEM_PROMPT, mcp_userMessage e mcpInfo)]) of
                 Some d \<Rightarrow>
                   \<lparr>mcp = name mcpInfo, uses = property d (js ''uses''),
                    purpose = property d (js ''purpose'')\<rparr>
               | None \<Rightarrow>
                   \<lparr>mcp = name mcpInfo,
                    uses = Arr (map (\<lambda>a. Obj [(js ''api'', Str (api_name a)),
                                              (js ''endpoints'', Arr []),
                                              (js ''critical'', Bool True)])
                                 (upstreamApis mcpInfo)),
                    purpose = Str (if useCase mcpInfo \<noteq> [] then useCase mcpInfo
                                   else js ''Unknown'')\<rparr>)"
    using research_answer [OF k, of mcpInfo w]
      research_answer [OF k, of mcpInfo "w\<lparr>clock_reads := Suc (clock_reads w)\<rparr>"]
    by (auto simp: fallback_profile_def or_else_def split: option.splits)
qed

lemma getClient_example_env: "getClient (example_env day texts) = Inr ()"
  by (simp add: getClient_def example_env_def js_def)

lemma json_match_profile_answer: "json_match profile_answer = Some profile_json"
  by (simp add: json_match_def profile_answer_def profile_json_def js_def)

lemma usable_answer_rejected: "usable_answer (example_env day []) sent = None"
  by (simp add: usable_answer_def service_answer_def example_env_def example_service_def)

lemma usable_answer_profile:
  "usable_answer (example_env day [profile_answer]) [request] = Some profile_value"
  by (simp add: usable_answer_def service_answer_def example_env_def example_service_def
        example_answer_def json_match_profile_answer parse_table_def profile_value_def)

theorem analyzeMcpDependencies_cache_witness:
  "fst (analyzeMcpDependencies (example_env 29 [profile_answer]) example_info
          (Some (example_cache 0)) \<lparr>requests = [], clock_reads = 0\<rparr>) = Inr example_profile
   \<and> requests (snd (analyzeMcpDependencies (example_env 29 [profile_answer]) example_info
          (Some (example_cache 0)) \<lparr>requests = [], clock_reads = 0\<rparr>)) = []
   \<and> fst (analyzeMcpDependencies (example_env 30 [profile_answer]) example_info
          (Some (example_cache 0)) \<lparr>requests = [], clock_reads = 0\<rparr>)
       = Inr \<lparr>mcp = js ''mcp-weather'',
              uses = Arr [Obj [(js ''api'', Str (js ''SMHI Open Data'')),
                               (js ''endpoints'', Arr []), (js ''critical'', Bool False)]],
              purpose = Str (js ''Forecasts'')\<rparr>
   \<and> requests (snd (analyzeMcpDependencies (example_env 30 [profile_answer]) example_info
          (Some (example_cache 0)) \<lparr>requests = [], clock_reads = 0\<rparr>))
       = [(MCP_RESEARCHER_SYSTEM_PROMPT,
           mcp_userMessage (example_env 30 [profile_answer]) example_info)]
   \<and> fst (analyzeMcpDependencies (example_env 1 [profile_answer]) example_info
          None \<lparr>requests = [], clock_reads = 0\<rparr>)
       = Inr \<lparr>mcp = js ''mcp-weather'',
              uses = Arr [Obj [(js ''api'', Str (js ''SMHI Open Data'')),
                               (js ''endpoints'', Arr []), (js ''critical'', Bool False)]],
              purpose = Str (js ''Forecasts'')\<rparr>
   \<and> fst (analyzeMcpDependencies (example_env 1 []) example_info
          (Some Map.empty) \<lparr>requests = [], clock_reads = 0\<rparr>)
       = Inr \<lparr>mcp = js ''mcp-weather'',
              uses = Arr [Obj [(js ''api'', Str (js ''SMHI'')),
                               (js ''endpoints'', Arr []), (js ''critical'', Bool True)]],
              purpose = Str (js ''Weather'')\<rparr>"
proof -
  let ?w = "\<lparr>requests = [], clock_reads = 0\<rparr>"
  have n: "name example_info = js ''mcp-weather''"
    "upstreamApis example_info
       = [\<lparr>api_name = js ''SMHI'', baseUrl = js ''https://smhi.example'', source = js ''client.ts''\<rparr>]"
    "useCase example_info = js ''Weather''"
    by (simp_all add: example_info_def)
  have 1: "example_cache 0 (name example_info)
             = Some \<lparr>entry_data = example_profile, timestamp = IsoString 0\<rparr>"
    by (simp add: example_cache_def n)
  have 2: "date_now (example_env 29 texts) (clock_reads ?w) - 0 < 30 * 24 * 60 * 60 * 1000"
          "date_now (example_env 30 texts) (clock_reads ?w) - 0 \<ge> 30 * 24 * 60 * 60 * 1000"
    for texts
    by (simp_all add: example_env_def)
  have 3: "property profile_value (js ''uses'')
             = Arr [Obj [(js ''api'', Str (js ''SMHI Open Data'')),
                         (js ''endpoints'', Arr []), (js ''critical'', Bool False)]]"
          "property profile_value (js ''purpose'') = Str (js ''Forecasts'')"
    by (simp_all add: profile_value_def own_property_def js_def)
  show ?thesis
    using analyzeMcpDependencies_cache
            [of "Some (example_cache 0)" example_info "example_env 29 [profile_answer]" ?w]
      analyzeMcpDependencies_cache
            [of "Some (example_cache 0)" example_info "example_env 30 [profile_answer]" ?w]
      analyzeMcpDependencies_cache [of None example_info "example_env 1 [profile_answer]" ?w]
      analyzeMcpDependencies_cache [of "Some Map.empty" example_info "example_env 1 []" ?w]
      1 2
    by (simp add: getClient_example_env usable_answer_profile usable_answer_rejected n 3)
qed

text \<open>
  Claim C3 does not hold of the code. \<^verbatim>\<open>analyzeAllMcps\<close> stores every result under a new
  timestamp, also a result that came from the cache: a hit leaves the data of the entry
  but moves its timestamp to the time of the run, and no service was called. Here the
  entry was computed on day 0; runs on day 29 and on day 58 both return it from the cache,
  and the entry then carries the time of day 58.
\<close>

theorem analyzeAllMcps_restamps_cache_hit:
  "analyzeAllMcps (example_env 29 []) [example_info] (Some (example_cache 0))
       \<lparr>requests = [], clock_reads = 0\<rparr>
     = (Inr ([example_profile],
             [js ''mcp-weather'' \<mapsto>
                \<lparr>entry_data = example_profile, timestamp = IsoString (29 * 86400000 + 1)\<rparr>]),
        \<lparr>requests = [], clock_reads = 2\<rparr>)
   \<and> analyzeAllMcps (example_env 58 []) [example_info]
       (Some [js ''mcp-weather'' \<mapsto>
                \<lparr>entry_data = example_profile, timestamp = IsoString (29 * 86400000 + 1)\<rparr>])
       \<lparr>requests = [], clock_reads = 0\<rparr>
     = (Inr ([example_profile],
             [js ''mcp-weather'' \<mapsto>
                \<lparr>entry_data = example_profile, timestamp = IsoString (58 * 86400000 + 1)\<rparr>]),
        \<lparr>requests = [], clock_reads = 2\<rparr>)"
  by (simp add: analyzeAllMcps_def analyzeMcpDependencies_def lookup_def read_clock_def
        CACHE_DURATION_DAYS_def example_env_def example_cache_def example_info_def Let_def)

text \<open>In general: a hit is stored again, with the data of the entry and the time of the run.\<close>

lemma analyzeAllMcps_hit:
  assumes "c (name m) = Some cached" "timestamp cached = IsoString T"
    and "date_now e (clock_reads w) - T < 30 * 24 * 60 * 60 * 1000"
  shows "analyzeAllMcps e [m] (Some c) w
           = (Inr ([entry_data cached],
                   c(name m \<mapsto> \<lparr>entry_data = entry_data cached,
                                   timestamp = IsoString (date_now e (Suc (clock_reads w)))\<rparr>)),
              w\<lparr>clock_reads := Suc (Suc (clock_reads w))\<rparr>)"
  using assms
  by (simp add: analyzeAllMcps_def analyzeMcpDependencies_def lookup_def read_clock_def
        CACHE_DURATION_DAYS_def Let_def)

subsection \<open>Stage 3: the decision\<close>

text \<open>
  Claim C4. When the providers' change lists are all empty, \<^verbatim>\<open>decideAction\<close> returns the
  decision with action \<^verbatim>\<open>none\<close>, no affected MCPs and no details, and does not call the
  service, whatever the dependency profiles are.
\<close>

theorem decideAction_no_changes:
  "concat (map changes apiChanges) = [] \<Longrightarrow>
     decideAction e apiChanges mcpDependencies w
       = (Inr (Obj [(js ''action'', Str (js ''none'')),
                    (js ''summary'', Str (js ''No API changes detected in monitored sources.'')),
                    (js ''affectedMcps'', Arr []),
                    (js ''recommendedAction'', Str (js ''No action needed'')),
                    (js ''details'', Arr [])]),
          w)"
  by (simp add: decideAction_def engineer_output_def Let_def)

theorem decideAction_no_changes_witness:
  "decideAction ((example_env 1 [])\<lparr>ANTHROPIC_API_KEY := None\<rparr>)
       [\<lparr>provider = js ''SMHI'', changes = [], noChangesDetected = Bool True\<rparr>,
        \<lparr>provider = js ''Trafikverket'', changes = [], noChangesDetected = Bool False\<rparr>]
       [example_profile, example_profile] \<lparr>requests = [], clock_reads = 0\<rparr>
     = (Inr (Obj [(js ''action'', Str (js ''none'')),
                  (js ''summary'', Str (js ''No API changes detected in monitored sources.'')),
                  (js ''affectedMcps'', Arr []),
                  (js ''recommendedAction'', Str (js ''No action needed'')),
                  (js ''details'', Arr [])]),
        \<lparr>requests = [], clock_reads = 0\<rparr>)"
  using decideAction_no_changes [of
          "[\<lparr>provider = js ''SMHI'', changes = [], noChangesDetected = Bool True\<rparr>,
            \<lparr>provider = js ''Trafikverket'', changes = [], noChangesDetected = Bool False\<rparr>]"
          "(example_env 1 [])\<lparr>ANTHROPIC_API_KEY := None\<rparr>"
          "[example_profile, example_profile]" "\<lparr>requests = [], clock_reads = 0\<rparr>"]
  by simp

text \<open>
  With at least one change \<^verbatim>\<open>decideAction\<close> first builds the message. When that throws,
  as for a profile whose \<^verbatim>\<open>uses\<close> is no array, the exception leaves \<^verbatim>\<open>decideAction\<close> and
  no request is sent.
\<close>

lemma decideAction_message_throws:
  "concat (map changes apiChanges) \<noteq> [] \<Longrightarrow>
   engineer_userMessage apiChanges mcpDependencies = Inl err \<Longrightarrow>
     decideAction e apiChanges mcpDependencies w = (Inl err, w)"
  by (simp add: decideAction_def Let_def)





subsection \<open>Stage 1: the merge of the pages of a provider\<close>

lemma findIndex_none: "findIndex P xs = - 1 \<longleftrightarrow> (\<forall>x\<in>set xs. \<not> P x)"
proof (induction xs)
  case Nil
  show ?case by simp
next
  case (Cons x xs)
  have "- 1 \<le> findIndex P ys" for ys
    by (induction ys) (auto simp: Let_def)
  from this [of xs] Cons show ?case by (auto simp: Let_def)
qed

lemma findIndex_append_hit: "\<exists>x\<in>set pre. P x \<Longrightarrow> findIndex P (pre @ ys) = findIndex P pre"
proof (induction pre)
  case Nil
  then show ?case by simp
next
  case (Cons x pre)
  show ?case
  proof (cases "P x")
    case True
    then show ?thesis by simp
  next
    case False
    then have h: "\<exists>x\<in>set pre. P x" using Cons.prems by auto
    then have "findIndex P pre \<noteq> - 1" "findIndex P (pre @ ys) \<noteq> - 1"
      by (auto simp: findIndex_none)
    then show ?thesis using False Cons.IH [OF h] by (simp add: Let_def)
  qed
qed

lemma findIndex_bound: "findIndex P xs \<le> int (length xs) - 1"
  by (induction xs) (simp_all add: Let_def)

lemma findIndex_less: "\<exists>x\<in>set xs. P x \<Longrightarrow> findIndex P xs < int (length xs)"
  using findIndex_bound [of P xs] by simp

lemma findIndex_append_miss:
  "\<forall>x\<in>set pre. \<not> P x \<Longrightarrow> P y \<Longrightarrow> findIndex P (pre @ y # ys) = int (length pre)"
  by (induction pre) (auto simp: Let_def)

lemma findIndex_first:
  "P y \<Longrightarrow> int (length pre) = findIndex P (pre @ y # ys) \<longleftrightarrow> (\<forall>x\<in>set pre. \<not> P x)"
proof
  assume a: "int (length pre) = findIndex P (pre @ y # ys)"
  show "\<forall>x\<in>set pre. \<not> P x"
  proof (rule ccontr)
    assume "\<not> (\<forall>x\<in>set pre. \<not> P x)"
    then have h: "\<exists>x\<in>set pre. P x" by simp
    then have "findIndex P (pre @ y # ys) < int (length pre)"
      using findIndex_append_hit [OF h, of "y # ys"] findIndex_less [OF h] by simp
    then show False using a by simp
  qed
next
  assume "P y" "\<forall>x\<in>set pre. \<not> P x"
  then show "int (length pre) = findIndex P (pre @ y # ys)"
    by (simp add: findIndex_append_miss)
qed

text \<open>
  The filter of the source keeps the entries that the merge of the specification keeps:
  an entry is found first at its own position exactly when no earlier entry has a title
  strictly equal to its title.
\<close>

lemma earlier_title:
  "(\<forall>z\<in>set (enumerate 0 pre). \<not> same_title z (length pre, x))
     \<longleftrightarrow> \<not> list_ex (\<lambda>t. strict_equals t (own_property x (js ''title'')))
             (map (\<lambda>c. own_property c (js ''title'')) pre)"
proof -
  have "(\<forall>z\<in>set (enumerate 0 pre). \<not> same_title z (length pre, x))
          \<longleftrightarrow> (\<forall>c\<in>set pre. \<not> strict_equals (own_property c (js ''title''))
                                  (own_property x (js ''title'')))"
  proof
    assume a: "\<forall>z\<in>set (enumerate 0 pre). \<not> same_title z (length pre, x)"
    show "\<forall>c\<in>set pre. \<not> strict_equals (own_property c (js ''title'')) (own_property x (js ''title''))"
    proof
      fix c assume "c \<in> set pre"
      then obtain i where "i < length pre" "pre ! i = c" by (auto simp: in_set_conv_nth)
      then have "(i, c) \<in> set (enumerate 0 pre)" by (simp add: in_set_enumerate_eq)
      with a have "\<not> same_title (i, c) (length pre, x)" by (rule bspec)
      then show "\<not> strict_equals (own_property c (js ''title'')) (own_property x (js ''title''))"
        by (simp add: same_title_def)
    qed
  next
    assume a: "\<forall>c\<in>set pre. \<not> strict_equals (own_property c (js ''title'')) (own_property x (js ''title''))"
    show "\<forall>z\<in>set (enumerate 0 pre). \<not> same_title z (length pre, x)"
    proof
      fix z assume z: "z \<in> set (enumerate 0 pre)"
      then have "fst z < length pre" "snd z \<in> set pre"
        using nth_mem [of "fst z" pre] by (auto simp: in_set_enumerate_eq)
      with a show "\<not> same_title z (length pre, x)"
        by (simp add: same_title_def)
    qed
  qed
  then show ?thesis by (simp add: list_ex_iff)
qed

lemma unique_from:
  "map (\<lambda>p. snd (fst p))
     (filter (\<lambda>(x, index). int index = findIndex (\<lambda>c. same_title c x) (enumerate 0 (pre @ xs)))
        (zip (enumerate (length pre) xs) [length pre..<length pre + length xs]))
     = dedupe_by_title_spec (map (\<lambda>c. own_property c (js ''title'')) pre) xs"
proof (induction xs arbitrary: pre)
  case Nil
  show ?case by simp
next
  case (Cons x xs)
  have u: "[length pre..<length pre + length (x # xs)]
             = length pre # [length (pre @ [x])..<length (pre @ [x]) + length xs]"
    using upt_conv_Cons [of "length pre" "length pre + length (x # xs)"] by simp
  have e: "enumerate 0 (pre @ x # xs)
             = enumerate 0 pre @ (length pre, x) # enumerate (Suc (length pre)) xs"
    by (simp add: enumerate_append_eq)
  have first: "int (length pre) = findIndex (\<lambda>c. same_title c (length pre, x)) (enumerate 0 (pre @ x # xs))
                 \<longleftrightarrow> \<not> list_ex (\<lambda>t. strict_equals t (own_property x (js ''title'')))
                          (map (\<lambda>c. own_property c (js ''title'')) pre)"
  proof -
    have "same_title (length pre, x) (length pre, x)" by (simp add: same_title_def)
    then have "int (length (enumerate 0 pre))
            = findIndex (\<lambda>c. same_title c (length pre, x))
                (enumerate 0 pre @ (length pre, x) # enumerate (Suc (length pre)) xs)
            \<longleftrightarrow> (\<forall>z\<in>set (enumerate 0 pre). \<not> same_title z (length pre, x))"
      by (rule findIndex_first)
    then show ?thesis unfolding e earlier_title by simp
  qed
  have rest: "map (\<lambda>p. snd (fst p))
                (filter (\<lambda>(y, index). int index = findIndex (\<lambda>c. same_title c y) (enumerate 0 (pre @ x # xs)))
                  (zip (enumerate (length (pre @ [x])) xs) [length (pre @ [x])..<length (pre @ [x]) + length xs]))
              = dedupe_by_title_spec (map (\<lambda>c. own_property c (js ''title'')) (pre @ [x])) xs"
    using Cons.IH [of "pre @ [x]"] by (simp del: upt_Suc)
  show ?case
    unfolding u using first rest by (simp del: upt_Suc)
qed

lemma unique_by_title:
  "map snd (filter_indexed (\<lambda>change index self. int index = findIndex (\<lambda>c. same_title c change) self)
              (enumerate 0 xs))
     = dedupe_by_title_spec [] xs"
  using unique_from [of "[]" xs] by (simp add: filter_indexed_def comp_def)

text \<open>
  The loop over the pages returns exactly when the analysis of every page returns, each
  in the state of the run that the page before it left; the collected changes are those
  of the pages in order.
\<close>

lemma collect_changes_thread:
  "collect_changes e provider' pages acc w = (Inr allChanges, w') \<longleftrightarrow>
     (\<exists>results ws.
        length results = length pages \<and> length ws = Suc (length pages)
        \<and> ws ! 0 = w \<and> ws ! length pages = w'
        \<and> (\<forall>i<length pages.
              analyzeApiChanges e provider' (page_url (pages ! i)) (page_content (pages ! i)) (ws ! i)
                = (Inr (results ! i), ws ! Suc i))
        \<and> allChanges = acc @ concat (map changes results))"
proof (induction pages arbitrary: acc w)
  case Nil
  show ?case
  proof
    assume "collect_changes e provider' [] acc w = (Inr allChanges, w')"
    then have "allChanges = acc" "w' = w" by simp_all
    then have "length ([] :: api_researcher_output list) = length ([] :: page list)
        \<and> length [w] = Suc (length ([] :: page list))
        \<and> [w] ! 0 = w \<and> [w] ! length ([] :: page list) = w'
        \<and> (\<forall>i<length ([] :: page list).
              analyzeApiChanges e provider' (page_url ([] ! i)) (page_content ([] ! i)) ([w] ! i)
                = (Inr ([] ! i), [w] ! Suc i))
        \<and> allChanges = acc @ concat (map changes [])"
      by simp
    then show "\<exists>results ws.
        length results = length ([] :: page list) \<and> length ws = Suc (length ([] :: page list))
        \<and> ws ! 0 = w \<and> ws ! length ([] :: page list) = w'
        \<and> (\<forall>i<length ([] :: page list).
              analyzeApiChanges e provider' (page_url ([] ! i)) (page_content ([] ! i)) (ws ! i)
                = (Inr (results ! i), ws ! Suc i))
        \<and> allChanges = acc @ concat (map changes results)"
      by blast
  next
    assume "\<exists>results ws.
        length results = length ([] :: page list) \<and> length ws = Suc (length ([] :: page list))
        \<and> ws ! 0 = w \<and> ws ! length ([] :: page list) = w'
        \<and> (\<forall>i<length ([] :: page list).
              analyzeApiChanges e provider' (page_url ([] ! i)) (page_content ([] ! i)) (ws ! i)
                = (Inr (results ! i), ws ! Suc i))
        \<and> allChanges = acc @ concat (map changes results)"
    then obtain results :: "api_researcher_output list" and ws :: "world list"
      where "length results = 0" "ws ! 0 = w" "ws ! 0 = w'"
        "allChanges = acc @ concat (map changes results)"
      by auto
    then show "collect_changes e provider' [] acc w = (Inr allChanges, w')" by simp
  qed
next
  case (Cons p pages)
  show ?case
  proof
    assume a: "collect_changes e provider' (p # pages) acc w = (Inr allChanges, w')"
    then obtain r w1
      where r: "analyzeApiChanges e provider' (page_url p) (page_content p) w = (Inr r, w1)"
        and c: "collect_changes e provider' pages (acc @ changes r) w1 = (Inr allChanges, w')"
      by (auto split: prod.splits sum.splits)
    from c obtain results ws
      where t: "length results = length pages" "length ws = Suc (length pages)"
        "ws ! 0 = w1" "ws ! length pages = w'"
        "\<forall>i<length pages.
              analyzeApiChanges e provider' (page_url (pages ! i)) (page_content (pages ! i)) (ws ! i)
                = (Inr (results ! i), ws ! Suc i)"
        "allChanges = (acc @ changes r) @ concat (map changes results)"
      unfolding Cons.IH [of "acc @ changes r" w1] by blast
    have "length (r # results) = length (p # pages) \<and> length (w # ws) = Suc (length (p # pages))
        \<and> (w # ws) ! 0 = w \<and> (w # ws) ! length (p # pages) = w'
        \<and> (\<forall>i<length (p # pages).
              analyzeApiChanges e provider' (page_url ((p # pages) ! i))
                  (page_content ((p # pages) ! i)) ((w # ws) ! i)
                = (Inr ((r # results) ! i), (w # ws) ! Suc i))
        \<and> allChanges = acc @ concat (map changes (r # results))"
      using t r by (simp add: All_less_Suc2)
    then show "\<exists>results ws.
        length results = length (p # pages) \<and> length ws = Suc (length (p # pages))
        \<and> ws ! 0 = w \<and> ws ! length (p # pages) = w'
        \<and> (\<forall>i<length (p # pages).
              analyzeApiChanges e provider' (page_url ((p # pages) ! i))
                  (page_content ((p # pages) ! i)) (ws ! i)
                = (Inr (results ! i), ws ! Suc i))
        \<and> allChanges = acc @ concat (map changes results)"
      by blast
  next
    assume "\<exists>results ws.
        length results = length (p # pages) \<and> length ws = Suc (length (p # pages))
        \<and> ws ! 0 = w \<and> ws ! length (p # pages) = w'
        \<and> (\<forall>i<length (p # pages).
              analyzeApiChanges e provider' (page_url ((p # pages) ! i))
                  (page_content ((p # pages) ! i)) (ws ! i)
                = (Inr (results ! i), ws ! Suc i))
        \<and> allChanges = acc @ concat (map changes results)"
    then obtain results ws
      where t: "length results = Suc (length pages)" "length ws = Suc (Suc (length pages))"
        "ws ! 0 = w" "ws ! Suc (length pages) = w'"
        "\<forall>i<Suc (length pages).
              analyzeApiChanges e provider' (page_url ((p # pages) ! i))
                  (page_content ((p # pages) ! i)) (ws ! i)
                = (Inr (results ! i), ws ! Suc i)"
        "allChanges = acc @ concat (map changes results)"
      by auto
    from t(1) obtain r results' where rs: "results = r # results'" "length results' = length pages"
      by (cases results) auto
    from t(2) obtain w0 ws' where wss: "ws = w0 # ws'" "length ws' = Suc (length pages)"
      by (cases ws) auto
    have w0: "w0 = w" using t(3) wss by simp
    have first: "analyzeApiChanges e provider' (page_url p) (page_content p) w = (Inr r, ws' ! 0)"
      using t(5) rs wss w0 by (simp add: All_less_Suc2)
    have later: "\<forall>i<length pages.
              analyzeApiChanges e provider' (page_url (pages ! i)) (page_content (pages ! i)) (ws' ! i)
                = (Inr (results' ! i), ws' ! Suc i)"
      using t(5) rs wss by (simp add: All_less_Suc2)
    have "\<exists>results ws.
        length results = length pages \<and> length ws = Suc (length pages)
        \<and> ws ! 0 = ws' ! 0 \<and> ws ! length pages = w'
        \<and> (\<forall>i<length pages.
              analyzeApiChanges e provider' (page_url (pages ! i)) (page_content (pages ! i)) (ws ! i)
                = (Inr (results ! i), ws ! Suc i))
        \<and> allChanges = (acc @ changes r) @ concat (map changes results)"
      using rs wss t(4,6) later by (intro exI [of _ results'] exI [of _ ws']) simp
    then have "collect_changes e provider' pages (acc @ changes r) (ws' ! 0) = (Inr allChanges, w')"
      unfolding Cons.IH [of "acc @ changes r" "ws' ! 0"] .
    then show "collect_changes e provider' (p # pages) acc w = (Inr allChanges, w')"
      using first by simp
  qed
qed

text \<open>
  Claim C8. \<^verbatim>\<open>analyzeProviderPages\<close> returns a result exactly when the analysis of every
  page returns one. The result then holds the changes of the per-page results, in the
  order of the pages, without every change whose title is strictly equal to the title of
  an earlier change (so the first of each title stays, at its place), and its flag
  \<^verbatim>\<open>noChangesDetected\<close> is true exactly when this list is empty.
\<close>

theorem analyzeProviderPages_merge:
  "analyzeProviderPages e provider' pages w = (Inr merged, w') \<longleftrightarrow>
     (\<exists>results ws.
        length results = length pages \<and> length ws = Suc (length pages)
        \<and> ws ! 0 = w \<and> ws ! length pages = w'
        \<and> (\<forall>i<length pages.
              analyzeApiChanges e provider' (page_url (pages ! i)) (page_content (pages ! i)) (ws ! i)
                = (Inr (results ! i), ws ! Suc i))
        \<and> merged
            = \<lparr>provider = provider',
               changes = dedupe_by_title_spec [] (concat (map changes results)),
               noChangesDetected =
                 Bool (dedupe_by_title_spec [] (concat (map changes results)) = [])\<rparr>)"
proof -
  have "analyzeProviderPages e provider' pages w = (Inr merged, w') \<longleftrightarrow>
          (\<exists>allChanges. collect_changes e provider' pages [] w = (Inr allChanges, w')
             \<and> merged = \<lparr>provider = provider', changes = dedupe_by_title_spec [] allChanges,
                          noChangesDetected = Bool (dedupe_by_title_spec [] allChanges = [])\<rparr>)"
    by (auto simp: analyzeProviderPages_def unique_by_title Let_def split: prod.splits sum.splits)
  then show ?thesis
    unfolding collect_changes_thread by auto
qed

lemma json_match_news_answer: "json_match news_answer = Some news_json"
  by (simp add: json_match_def news_answer_def news_json_def js_def)

lemma json_match_docs_json: "json_match docs_json = Some docs_json"
  by (simp add: json_match_def docs_json_def js_def)

lemma parse_examples:
  "parse_table [(profile_json, profile_value), (news_json, news_value), (docs_json, docs_value),
                (js ''{}'', Obj [])] news_json = Inr news_value"
  "parse_table [(profile_json, profile_value), (news_json, news_value), (docs_json, docs_value),
                (js ''{}'', Obj [])] docs_json = Inr docs_value"
  by (simp_all add: parse_table_def profile_json_def news_json_def docs_json_def js_def)

theorem analyzeProviderPages_merge_witness:
  "analyzeProviderPages (example_env 1 [news_answer, docs_json]) (js ''SMHI'') example_pages
       \<lparr>requests = [], clock_reads = 0\<rparr>
     = (Inr \<lparr>provider = js ''SMHI'',
             changes = [[(js ''title'', Str (js ''v1 sunset'')),
                         (js ''sourceUrl'', Str (js ''https://smhi.example/v1''))],
                        [(js ''title'', Str (js ''New endpoint'')),
                         (js ''sourceUrl'', Str (js ''https://smhi.example/news''))],
                        [(js ''title'', Str (js ''Rate limits'')),
                         (js ''sourceUrl'', Str (js ''https://smhi.example/docs''))]],
             noChangesDetected = Bool False\<rparr>,
        \<lparr>requests =
           [(API_RESEARCHER_SYSTEM_PROMPT,
             api_userMessage (js ''SMHI'') (js ''https://smhi.example/news'')
               (js ''Version 1 is removed'')),
            (API_RESEARCHER_SYSTEM_PROMPT,
             api_userMessage (js ''SMHI'') (js ''https://smhi.example/docs'')
               (js ''Limits apply''))],
         clock_reads = 0\<rparr>)"
proof -
  let ?e = "example_env 1 [news_answer, docs_json]"
  let ?w0 = "\<lparr>requests = [], clock_reads = 0\<rparr>"
  let ?r1 = "(API_RESEARCHER_SYSTEM_PROMPT,
              api_userMessage (js ''SMHI'') (js ''https://smhi.example/news'')
                (js ''Version 1 is removed''))"
  let ?r2 = "(API_RESEARCHER_SYSTEM_PROMPT,
              api_userMessage (js ''SMHI'') (js ''https://smhi.example/docs'') (js ''Limits apply''))"
  let ?w1 = "\<lparr>requests = [?r1], clock_reads = 0\<rparr>"
  let ?w2 = "\<lparr>requests = [?r1, ?r2], clock_reads = 0\<rparr>"
  let ?news = "\<lparr>provider = js ''SMHI'',
                changes = [[(js ''title'', Str (js ''v1 sunset'')),
                            (js ''sourceUrl'', Str (js ''https://smhi.example/v1''))],
                           [(js ''title'', Str (js ''New endpoint'')),
                            (js ''sourceUrl'', Str (js ''https://smhi.example/news''))]],
                noChangesDetected = Bool False\<rparr>"
  let ?docs = "\<lparr>provider = js ''SMHI'',
                changes = [[(js ''title'', Str (js ''v1 sunset'')),
                            (js ''summary'', Str (js ''Again'')),
                            (js ''sourceUrl'', Str (js ''https://smhi.example/docs''))],
                           [(js ''title'', Str (js ''Rate limits'')),
                            (js ''sourceUrl'', Str (js ''https://smhi.example/docs''))]],
                noChangesDetected = Bool False\<rparr>"
  have c1: "callLLM ?e API_RESEARCHER_SYSTEM_PROMPT (snd ?r1) ?w0
              = (Inr \<lparr>success = True, data = Some news_value, error = None,
                      usage = Some \<lparr>inputTokens = 10, outputTokens = 5\<rparr>\<rparr>, ?w1)"
    by (simp add: callLLM_def getClient_example_env Let_def)
       (simp add: example_env_def example_service_def example_answer_def
          json_match_news_answer parse_examples)
  have c2: "callLLM ?e API_RESEARCHER_SYSTEM_PROMPT (snd ?r2) ?w1
              = (Inr \<lparr>success = True, data = Some docs_value, error = None,
                      usage = Some \<lparr>inputTokens = 10, outputTokens = 5\<rparr>\<rparr>, ?w2)"
    by (simp add: callLLM_def getClient_example_env Let_def)
       (simp add: example_env_def example_service_def example_answer_def
          json_match_docs_json parse_examples)
  have a1: "analyzeApiChanges ?e (js ''SMHI'') (js ''https://smhi.example/news'')
              (js ''Version 1 is removed'') ?w0 = (Inr ?news, ?w1)"
    using c1
    by (simp add: analyzeApiChanges_def usable_data_def news_value_def map_changes_def
          with_sourceUrl_def and_then_def assign_def own_property_def js_def)
  have a2: "analyzeApiChanges ?e (js ''SMHI'') (js ''https://smhi.example/docs'')
              (js ''Limits apply'') ?w1 = (Inr ?docs, ?w2)"
    using c2
    by (simp add: analyzeApiChanges_def usable_data_def docs_value_def map_changes_def
          with_sourceUrl_def and_then_def assign_def own_property_def js_def)
  have d: "dedupe_by_title_spec [] (changes ?news @ changes ?docs)
             = [[(js ''title'', Str (js ''v1 sunset'')),
                 (js ''sourceUrl'', Str (js ''https://smhi.example/v1''))],
                [(js ''title'', Str (js ''New endpoint'')),
                 (js ''sourceUrl'', Str (js ''https://smhi.example/news''))],
                [(js ''title'', Str (js ''Rate limits'')),
                 (js ''sourceUrl'', Str (js ''https://smhi.example/docs''))]]"
    by (simp add: own_property_def js_def)
  have d': "concat (map changes [?news, ?docs]) = changes ?news @ changes ?docs"
    by simp
  have "\<exists>results ws.
          length results = length example_pages \<and> length ws = Suc (length example_pages)
          \<and> ws ! 0 = ?w0 \<and> ws ! length example_pages = ?w2
          \<and> (\<forall>i<length example_pages.
                analyzeApiChanges ?e (js ''SMHI'') (page_url (example_pages ! i))
                    (page_content (example_pages ! i)) (ws ! i)
                  = (Inr (results ! i), ws ! Suc i))
          \<and> \<lparr>provider = js ''SMHI'',
              changes = [[(js ''title'', Str (js ''v1 sunset'')),
                          (js ''sourceUrl'', Str (js ''https://smhi.example/v1''))],
                         [(js ''title'', Str (js ''New endpoint'')),
                          (js ''sourceUrl'', Str (js ''https://smhi.example/news''))],
                         [(js ''title'', Str (js ''Rate limits'')),
                          (js ''sourceUrl'', Str (js ''https://smhi.example/docs''))]],
              noChangesDetected = Bool False\<rparr>
            = \<lparr>provider = js ''SMHI'',
               changes = dedupe_by_title_spec [] (concat (map changes results)),
               noChangesDetected =
                 Bool (dedupe_by_title_spec [] (concat (map changes results)) = [])\<rparr>"
    unfolding example_pages_def
    apply (intro exI [of _ "[?news, ?docs]"] exI [of _ "[?w0, ?w1, ?w2]"])
    unfolding d' d
    by (simp add: a1 a2 All_less_Suc2)
  then show ?thesis
    by (rule analyzeProviderPages_merge [THEN iffD2])
qed

text \<open>
  An answer that is JSON but has no \<^verbatim>\<open>changes\<close> makes the analysis of the page, and with
  it \<^verbatim>\<open>analyzeProviderPages\<close>, throw a \<^verbatim>\<open>TypeError\<close>.
\<close>

lemma analyzeProviderPages_shapeless_answer:
  "fst (analyzeProviderPages (example_env 1 [js ''Found: {}'']) (js ''SMHI'') example_pages
          \<lparr>requests = [], clock_reads = 0\<rparr>)
     = Inl (TypeError (js ''Cannot read properties of undefined (reading '' @ [0x27]
              @ js ''map'' @ [0x27] @ js '')''))"
proof -
  have m: "json_match (js ''Found: {}'') = Some (js ''{}'')"
    by (simp add: json_match_def js_def)
  have p: "json_parse (example_env 1 [js ''Found: {}'']) (js ''{}'') = Inr (Obj [])"
    by (simp add: example_env_def parse_table_def profile_json_def news_json_def docs_json_def
          js_def)
  have s: "messages_create (example_env 1 [js ''Found: {}'']) [request]
             = example_answer (js ''Found: {}'')" for request
    by (simp add: example_env_def example_service_def)
  show ?thesis
    by (simp add: analyzeProviderPages_def example_pages_def analyzeApiChanges_def callLLM_def
          getClient_example_env Let_def s example_answer_def m p usable_data_def
          map_changes_def and_then_def own_property_def)
qed
section \<open>Properties of the persistence\<close>

subsection \<open>Saving the state\<close>

lemma outcomes_saveCheckState:
  "outcomes (saveCheckState JSON_stringify statePath state) files =
     files # map (\<lambda>k. files(statePath \<mapsto> take k (JSON_stringify state)))
               [0..<length (JSON_stringify state)]
       @ [files(statePath \<mapsto> JSON_stringify state)]"
  by (simp add: saveCheckState_def)

text \<open>
  Claim C9, as stated, fails: \<^verbatim>\<open>saveCheckState\<close> writes to the path of the state itself,
  so an interrupted save can leave a file that holds neither the old text nor the new
  one.
\<close>

theorem saveCheckState_not_atomic:
  "\<not> (\<forall>(JSON_stringify :: check_state \<Rightarrow> jsstring) statePath state files.
        \<forall>f\<in>set (outcomes (saveCheckState JSON_stringify statePath state) files).
          f statePath = files statePath \<or> f statePath = Some (JSON_stringify state))"
proof
  assume a: "\<forall>(JSON_stringify :: check_state \<Rightarrow> jsstring) statePath state files.
        \<forall>f\<in>set (outcomes (saveCheckState JSON_stringify statePath state) files).
          f statePath = files statePath \<or> f statePath = Some (JSON_stringify state)"
  let ?S = "\<lambda>s::check_state. js ''{ }''"
  let ?p = "js ''last-check.json''"
  let ?files = "[?p \<mapsto> js ''{}'']"
  let ?st = "\<lparr>sources = Map.empty, mcpCache = None, lastCheck = None\<rparr>"
  have m: "?files(?p \<mapsto> take 1 (?S ?st)) \<in> set (outcomes (saveCheckState ?S ?p ?st) ?files)"
    unfolding outcomes_saveCheckState by (simp add: js_def)
  have "\<forall>f\<in>set (outcomes (saveCheckState ?S ?p ?st) ?files).
          f ?p = ?files ?p \<or> f ?p = Some (?S ?st)"
    by (rule a [THEN spec, THEN spec, THEN spec, THEN spec])
  then have "(?files(?p \<mapsto> take 1 (?S ?st))) ?p = ?files ?p
             \<or> (?files(?p \<mapsto> take 1 (?S ?st))) ?p = Some (?S ?st)"
    using m by (rule bspec)
  then show False by (simp add: js_def)
qed

text \<open>
  Claim C9, as amended. \<^verbatim>\<open>saveCheckState\<close> is one direct write of the whole serialised
  state to the path of the state, with no temporary file and no rename. A complete save
  leaves exactly the new text in the file and no other file changed. An interrupted save
  changes no other file either, and leaves at the path the old file or a prefix of the
  new text; \<^verbatim>\<open>loadCheckState\<close> then returns the empty state when that text does not
  parse.
\<close>

theorem saveCheckState_direct_write:
  "saveCheckState JSON_stringify statePath state = [WriteFile statePath (JSON_stringify state)]
   \<and> last (outcomes (saveCheckState JSON_stringify statePath state) files)
       = files(statePath \<mapsto> JSON_stringify state)
   \<and> (\<forall>f\<in>set (outcomes (saveCheckState JSON_stringify statePath state) files).
         (\<forall>p. p \<noteq> statePath \<longrightarrow> f p = files p)
         \<and> (f statePath = files statePath
            \<or> (\<exists>k\<le>length (JSON_stringify state). f statePath = Some (take k (JSON_stringify state)))))
   \<and> (\<forall>f text. f statePath = Some text \<and> JSON_parse text = None \<longrightarrow>
         loadCheckState JSON_parse statePath f
           = \<lparr>sources = Map.empty, mcpCache = None, lastCheck = None\<rparr>)"
proof (intro conjI)
  show "saveCheckState JSON_stringify statePath state = [WriteFile statePath (JSON_stringify state)]"
    by (simp add: saveCheckState_def)
  show "last (outcomes (saveCheckState JSON_stringify statePath state) files)
       = files(statePath \<mapsto> JSON_stringify state)"
    unfolding outcomes_saveCheckState by simp
  show "\<forall>f\<in>set (outcomes (saveCheckState JSON_stringify statePath state) files).
         (\<forall>p. p \<noteq> statePath \<longrightarrow> f p = files p)
         \<and> (f statePath = files statePath
            \<or> (\<exists>k\<le>length (JSON_stringify state). f statePath = Some (take k (JSON_stringify state))))"
    unfolding outcomes_saveCheckState
  proof (intro ballI)
    fix f
    assume "f \<in> set (files # map (\<lambda>k. files(statePath \<mapsto> take k (JSON_stringify state)))
                               [0..<length (JSON_stringify state)]
                       @ [files(statePath \<mapsto> JSON_stringify state)])"
    then consider "f = files"
      | k where "k < length (JSON_stringify state)" "f = files(statePath \<mapsto> take k (JSON_stringify state))"
      | "f = files(statePath \<mapsto> JSON_stringify state)"
      by auto
    then show "(\<forall>p. p \<noteq> statePath \<longrightarrow> f p = files p)
         \<and> (f statePath = files statePath
            \<or> (\<exists>k\<le>length (JSON_stringify state). f statePath = Some (take k (JSON_stringify state))))"
    proof cases
      case 1
      then show ?thesis by simp
    next
      case 2
      then show ?thesis by (auto intro: exI [of _ k])
    next
      case 3
      then show ?thesis by (auto intro: exI [of _ "length (JSON_stringify state)"])
    qed
  qed
  show "\<forall>f text. f statePath = Some text \<and> JSON_parse text = None \<longrightarrow>
         loadCheckState JSON_parse statePath f
           = \<lparr>sources = Map.empty, mcpCache = None, lastCheck = None\<rparr>"
    by (simp add: loadCheckState_def)
qed

theorem saveCheckState_direct_write_witness:
  "[js ''last-check.json'' \<mapsto> js ''{'']
     \<in> set (outcomes (saveCheckState (\<lambda>s. js ''{ }'') (js ''last-check.json'')
                        \<lparr>sources = Map.empty, mcpCache = None, lastCheck = None\<rparr>)
              [js ''last-check.json'' \<mapsto> js ''{}''])
   \<and> last (outcomes (saveCheckState (\<lambda>s. js ''{ }'') (js ''last-check.json'')
                        \<lparr>sources = Map.empty, mcpCache = None, lastCheck = None\<rparr>)
              [js ''last-check.json'' \<mapsto> js ''{}''])
       = [js ''last-check.json'' \<mapsto> js ''{ }'']
   \<and> loadCheckState (\<lambda>t. if t = js ''{ }'' then Some \<lparr>sources = Map.empty, mcpCache = None,
                                                     lastCheck = Some (IsoString 5)\<rparr> else None)
        (js ''last-check.json'') [js ''last-check.json'' \<mapsto> js ''{'']
       = \<lparr>sources = Map.empty, mcpCache = None, lastCheck = None\<rparr>"
proof -
  let ?S = "\<lambda>s::check_state. js ''{ }''"
  let ?p = "js ''last-check.json''"
  let ?files = "[?p \<mapsto> js ''{}'']"
  let ?st = "\<lparr>sources = Map.empty, mcpCache = None, lastCheck = None\<rparr>"
  let ?J = "\<lambda>t. if t = js ''{ }'' then Some \<lparr>sources = Map.empty, mcpCache = None,
                                             lastCheck = Some (IsoString 5)\<rparr> else None"
  have m: "[?p \<mapsto> js ''{''] \<in> set (outcomes (saveCheckState ?S ?p ?st) ?files)"
    unfolding outcomes_saveCheckState by (simp add: js_def)
  have l: "[?p \<mapsto> js ''{''] ?p = Some (js ''{'') \<and> ?J (js ''{'') = None"
    by (simp add: js_def)
  show ?thesis
    using saveCheckState_direct_write [of ?S ?p ?st ?files ?J] m l by simp
qed
end
